theory Spec2Isabelle
  imports Complex_Main "HOL-Library.Word"
begin

unbundle bit_operations_syntax

chapter \<open>Llama-2 inference on OpenGL ES compute shaders: a model of the host program and its kernels\<close>

text \<open>
  The theory embeds the parts of \<^verbatim>\<open>run_gpu.c\<close> that its specification makes claims
  about: the random number generator, the sizing of the scratch buffers, the compute
  shaders with the host code that binds buffers to them and dispatches them, the forward
  pass, and the samplers. Definitions come first, each next to the name it has in the
  source; the lemmas and the theorems about the claims follow.
\<close>

section \<open>The random number generator\<close>

text \<open>\<^verbatim>\<open>rng_seed\<close> is an \<^verbatim>\<open>unsigned long long\<close> (64 bits), \<^verbatim>\<open>random_u32\<close> returns an
  \<^verbatim>\<open>unsigned int\<close> (32 bits). The global is threaded through: each function returns
  the new seed with its result. The three xorshift statements of \<^verbatim>\<open>random_u32\<close> are
  named, one definition each.\<close>

type_synonym u64 = "64 word"
type_synonym u32 = "32 word"

definition xorshift_r12 :: "u64 \<Rightarrow> u64" where
  "xorshift_r12 rng_seed = rng_seed XOR drop_bit 12 rng_seed"

definition xorshift_l25 :: "u64 \<Rightarrow> u64" where
  "xorshift_l25 rng_seed = rng_seed XOR push_bit 25 rng_seed"

definition xorshift_r27 :: "u64 \<Rightarrow> u64" where
  "xorshift_r27 rng_seed = rng_seed XOR drop_bit 27 rng_seed"

definition random_u32 :: "u64 \<Rightarrow> u32 \<times> u64" where
  "random_u32 rng_seed =
     (let rng_seed = xorshift_r12 rng_seed;
          rng_seed = xorshift_l25 rng_seed;
          rng_seed = xorshift_r27 rng_seed
      in (ucast (drop_bit 32 (rng_seed * 0x2545F4914F6CDD1D)), rng_seed))"

text \<open>\<^verbatim>\<open>(random_u32() >> 8) / 16777216.0f\<close>: the numerator is below \<open>2^24\<close>, so the
  conversion to \<^verbatim>\<open>float\<close> and the division by \<open>2^24\<close> are exact, and the real number
  below is the \<^verbatim>\<open>float\<close> the source returns.\<close>

definition random_f32 :: "u64 \<Rightarrow> real \<times> u64" where
  "random_f32 rng_seed =
     (let (u, rng_seed) = random_u32 rng_seed
      in (real (unat (drop_bit 8 u)) / 16777216, rng_seed))"

text \<open>The seed after \<open>n\<close> calls of \<^verbatim>\<open>random_u32\<close>.\<close>

fun rng_after :: "nat \<Rightarrow> u64 \<Rightarrow> u64" where
  "rng_after 0 rng_seed = rng_seed"
| "rng_after (Suc n) rng_seed = rng_after n (snd (random_u32 rng_seed))"

section \<open>The compute API: buffers, bindings, programs and dispatch\<close>

text \<open>
  The host program drives a GPU through buffer objects, indexed shader-storage binding
  points, compute programs with integer uniforms, and dispatches over a three-dimensional
  grid. The model keeps exactly that state. A buffer handle (\<^verbatim>\<open>s->xb\<close>,
  \<^verbatim>\<open>w->wq\<close>) is a constructor of \<open>buffer\<close>: \<^verbatim>\<open>glGenBuffers\<close> hands out distinct
  names, and the host compares them (\<^verbatim>\<open>o == x\<close> in \<^verbatim>\<open>rmsnorm\<close>).

  Modelling decisions, all stated here once:
  \<^item> \<^verbatim>\<open>float\<close> is \<open>real\<close>: sums are folded in the source's order, but rounding, infinities
    and NaN are not modelled;
  \<^item> C and GLSL \<^verbatim>\<open>int\<close> values that the driver only ever makes non-negative (sizes,
    positions, offsets, indices) are \<open>nat\<close>; 32-bit overflow of them is not modelled;
  \<^item> a buffer is an unbounded array \<open>nat \<Rightarrow> real\<close>; an access past the allocated size,
    undefined in the API, reads or writes a cell of the same buffer;
  \<^item> the invocations of a dispatch run one after another, x fastest, then y, then z;
  \<^item> \<^verbatim>\<open>glMemoryBarrier\<close> and \<^verbatim>\<open>GPU_CHECK\<close> change nothing in this state and are left out;
  \<^item> \<open>None\<close> is a call that does not return: a loop that never exits, or an integer
    division by zero.
\<close>

datatype buffer =
    buffer_0
  | s_x | s_xb | s_xb2 | s_hb | s_hb2 | s_q | s_k | s_v | s_att | s_logits
  | s_key_cache | s_value_cache
  | s_mulBuffer_1 | s_mulBuffer_2 | s_mulBuffer_3 | s_mulBuffer_4
  | w_rms_att_weight | w_rms_ffn_weight | w_wq | w_wk | w_wv | w_wo | w_w1 | w_w2 | w_w3
  | w_rms_final_weight | w_freq_cis_real | w_freq_cis_imag | w_wcls

datatype program =
    program_0
  | shader_matmul | shader_rmsnorm_squares_and_sum | shader_sum
  | shader_rmsnorm_normalize_and_scale | shader_rmsnorm_normalize_and_scale_currentPos
  | shader_accum | shader_positionalEncoding | shader_max | shader_min
  | shader_softmax_exp_and_sum | shader_softmax_normalize
  | shader_transformer_silu_and_mulW3 | shader_transformer_get_query_vector
  | shader_transformer_build_attMat | shader_transformer_softmax_input
  | shader_transformer_softmax_output | shader_temperature
  | shader_argmax_set_index | shader_argmax

datatype uniform =
    u_n | u_x_offset | u_w_offset | u_insize | u_shape0 | u_size | u_weight_offset
  | u_pos | u_dim | u_hidden_dim | u_freq_cis_idx_delta | u_head_size | u_seq_len
  | u_layer_idx

text \<open>One entry of the dispatch log: the program in use, the grid, and that program's
  uniforms at the time of the call.\<close>

record call =
  c_program :: program
  c_grid :: "nat \<times> nat \<times> nat"
  c_uniforms :: "uniform \<Rightarrow> nat"

record gl_state =
  mem :: "buffer \<Rightarrow> nat \<Rightarrow> real"
  bnd :: "nat \<Rightarrow> buffer"
  target :: buffer
  prg :: program
  uni :: "program \<Rightarrow> uniform \<Rightarrow> nat"
  uni_temperature :: real
  calls :: "call list"
  copy_by_name :: bool
  map_fails :: bool

text \<open>
  \<open>bnd\<close> are the indexed binding points of \<^verbatim>\<open>GL_SHADER_STORAGE_BUFFER\<close>, \<open>target\<close> its
  generic binding point, \<open>prg\<close> the program in use, \<open>calls\<close> the log of dispatches.
  Two fields stand for the driver: \<open>copy_by_name\<close> says whether
  \<^verbatim>\<open>glCopyBufferSubData\<close> accepts the buffer names the host passes where the API takes
  binding targets (if not, the call is rejected and copies nothing), and \<open>map_fails\<close>
  whether \<^verbatim>\<open>glMapBufferRange\<close> returns \<^verbatim>\<open>NULL\<close>.
\<close>

definition sizeof_float :: nat where
  "sizeof_float = 4"

definition glBindBufferBase :: "nat \<Rightarrow> buffer \<Rightarrow> gl_state \<Rightarrow> gl_state" where
  "glBindBufferBase index b s = s\<lparr>bnd := (bnd s)(index := b), target := b\<rparr>"

definition glBindBuffer :: "buffer \<Rightarrow> gl_state \<Rightarrow> gl_state" where
  "glBindBuffer b s = s\<lparr>target := b\<rparr>"

definition glUseProgram :: "program \<Rightarrow> gl_state \<Rightarrow> gl_state" where
  "glUseProgram p s = s\<lparr>prg := p\<rparr>"

text \<open>
  \<^verbatim>\<open>glUniform1i(glGetUniformLocation(P, name), v)\<close>: a location belongs to the program it
  was looked up in, and the call sets a uniform of the program in use. Looked up in
  another program, the location names nothing there and the call is ignored. (The one
  such case is \<^verbatim>\<open>argmax\<close>, which looks the names up in \<^verbatim>\<open>shader_argmax\<close>, a program
  whose source does not compile.)
\<close>

definition glUniform1i :: "program \<times> uniform \<Rightarrow> nat \<Rightarrow> gl_state \<Rightarrow> gl_state" where
  "glUniform1i loc v s =
     (if fst loc = prg s
      then s\<lparr>uni := (uni s)(prg s := (uni s (prg s))(snd loc := v))\<rparr>
      else s)"

definition glUniform1f_temperature :: "program \<Rightarrow> real \<Rightarrow> gl_state \<Rightarrow> gl_state" where
  "glUniform1f_temperature p v s = (if p = prg s then s\<lparr>uni_temperature := v\<rparr> else s)"

text \<open>\<^verbatim>\<open>glBufferSubData(target, offset, size, data)\<close>, offsets and sizes in bytes.\<close>

definition glBufferSubData :: "nat \<Rightarrow> nat \<Rightarrow> (nat \<Rightarrow> real) \<Rightarrow> gl_state \<Rightarrow> gl_state" where
  "glBufferSubData offset nbytes data s =
     s\<lparr>mem := (mem s)(target s :=
        (\<lambda>i. if offset \<le> i * sizeof_float \<and> i * sizeof_float < offset + nbytes
             then data ((i * sizeof_float - offset) div sizeof_float)
             else mem s (target s) i))\<rparr>"

text \<open>\<^verbatim>\<open>glCopyBufferSubData(read, write, readOffset, writeOffset, size)\<close>, in bytes.\<close>

definition glCopyBufferSubData ::
  "buffer \<Rightarrow> buffer \<Rightarrow> nat \<Rightarrow> nat \<Rightarrow> nat \<Rightarrow> gl_state \<Rightarrow> gl_state" where
  "glCopyBufferSubData rd_buf wr_buf readOffset writeOffset nbytes s =
     (if copy_by_name s
      then s\<lparr>mem := (mem s)(wr_buf :=
        (\<lambda>i. if writeOffset \<le> i * sizeof_float \<and> i * sizeof_float < writeOffset + nbytes
             then mem s rd_buf ((i * sizeof_float - writeOffset + readOffset) div sizeof_float)
             else mem s wr_buf i))\<rparr>
      else s)"

definition glMapBufferRange :: "gl_state \<Rightarrow> (nat \<Rightarrow> real) option" where
  "glMapBufferRange s = (if map_fails s then None else Some (mem s (target s)))"

subsection \<open>What a shader invocation sees\<close>

definition rd :: "gl_state \<Rightarrow> nat \<Rightarrow> nat \<Rightarrow> real" where
  "rd s binding i = mem s (bnd s binding) i"

definition wr :: "nat \<Rightarrow> nat \<Rightarrow> real \<Rightarrow> gl_state \<Rightarrow> gl_state" where
  "wr binding i v s = s\<lparr>mem := (mem s)(bnd s binding := (mem s (bnd s binding))(i := v))\<rparr>"

definition uget :: "gl_state \<Rightarrow> uniform \<Rightarrow> nat" where
  "uget s name = uni s (prg s) name"

subsection \<open>The compute shaders\<close>

text \<open>Each \<^verbatim>\<open>main\<close> takes \<^verbatim>\<open>gl_GlobalInvocationID\<close> as \<open>(x, y, z)\<close>. Binding numbers are the
  \<^verbatim>\<open>layout(binding = ...)\<close> of the source.\<close>

definition main_matmul :: "nat \<times> nat \<times> nat \<Rightarrow> gl_state \<Rightarrow> gl_state" where
  "main_matmul gid s =
     (let i = fst gid; n = uget s u_n;
          val = fold (\<lambda>j val. val + rd s 1 (i * n + j + uget s u_w_offset)
                                      * rd s 0 (j + uget s u_x_offset)) [0..<n] 0
      in wr 2 i val s)"

definition main_rmsnorm_squares_and_sum :: "nat \<times> nat \<times> nat \<Rightarrow> gl_state \<Rightarrow> gl_state" where
  "main_rmsnorm_squares_and_sum gid s =
     (let idx = fst gid;
          s = wr 1 idx (rd s 0 (idx * 2) * rd s 0 (idx * 2)) s
      in if idx * 2 + 1 < uget s u_insize
         then wr 1 idx (rd s 1 idx + rd s 0 (idx * 2 + 1) * rd s 0 (idx * 2 + 1)) s
         else s)"

definition main_softmax_exp_and_sum :: "nat \<times> nat \<times> nat \<Rightarrow> gl_state \<Rightarrow> gl_state" where
  "main_softmax_exp_and_sum gid s =
     (let idx = fst gid; idy = fst (snd gid);
          insize = uget s u_insize; shape0 = uget s u_shape0;
          i0 = idx * 2 + insize * idy;
          i1 = i0 + 1;
          max_val = rd s 1 0;
          s = wr 2 (idx + shape0 * idy) (exp (rd s 0 i0 - max_val)) s
      in if i1 < insize
         then wr 2 (idx + shape0 * idy)
                (rd s 2 (idx + shape0 * idy) + exp (rd s 0 i1 - max_val)) s
         else s)"

definition main_softmax_normalize :: "nat \<times> nat \<times> nat \<Rightarrow> gl_state \<Rightarrow> gl_state" where
  "main_softmax_normalize gid s =
     (let idx = fst gid; idy = fst (snd gid); shape0 = uget s u_shape0
      in wr 2 (idx + shape0 * idy) (rd s 2 (idx + shape0 * idy) / rd s 0 0) s)"

definition main_sum :: "nat \<times> nat \<times> nat \<Rightarrow> gl_state \<Rightarrow> gl_state" where
  "main_sum gid s =
     (let idx = fst gid; idy = fst (snd gid);
          insize = uget s u_insize; shape0 = uget s u_shape0;
          s = wr 1 (idx + shape0 * idy) (rd s 0 (insize * idy + idx * 2)) s
      in if idx * 2 + 1 < insize
         then wr 1 (idx + shape0 * idy)
                (rd s 1 (idx + shape0 * idy) + rd s 0 (insize * idy + idx * 2 + 1)) s
         else s)"

definition main_max :: "nat \<times> nat \<times> nat \<Rightarrow> gl_state \<Rightarrow> gl_state" where
  "main_max gid s =
     (let idx = fst gid; idy = fst (snd gid);
          insize = uget s u_insize; shape0 = uget s u_shape0
      in if idx * 2 + 1 < insize
         then wr 1 (idx + shape0 * idy)
                (max (rd s 0 (insize * idy + idx * 2)) (rd s 0 (insize * idy + idx * 2 + 1))) s
         else wr 1 (idx + shape0 * idy) (rd s 0 (insize * idy + idx * 2)) s)"

definition main_min :: "nat \<times> nat \<times> nat \<Rightarrow> gl_state \<Rightarrow> gl_state" where
  "main_min gid s =
     (let idx = fst gid; idy = fst (snd gid);
          insize = uget s u_insize; shape0 = uget s u_shape0
      in if idx * 2 + 1 < insize
         then wr 1 (idx + shape0 * idy)
                (min (rd s 0 (insize * idy + idx * 2)) (rd s 0 (insize * idy + idx * 2 + 1))) s
         else wr 1 (idx + shape0 * idy) (rd s 0 (insize * idy + idx * 2)) s)"

definition main_argmax_set_index :: "nat \<times> nat \<times> nat \<Rightarrow> gl_state \<Rightarrow> gl_state" where
  "main_argmax_set_index gid s =
     (let idx = fst gid; idy = fst (snd gid)
      in wr 1 (idx + uget s u_insize * idy) (real idx) s)"

definition main_rmsnorm_normalize_and_scale :: "nat \<times> nat \<times> nat \<Rightarrow> gl_state \<Rightarrow> gl_state" where
  "main_rmsnorm_normalize_and_scale gid s =
     (let idx = fst gid;
          ss = rd s 0 0;
          ss = ss / real (uget s u_size);
          ss = ss + 0.00001;
          ss = 1 / sqrt ss
      in wr 3 idx (rd s 1 (idx + uget s u_weight_offset) * (ss * rd s 2 idx)) s)"

definition main_rmsnorm_normalize_and_scale_currentPos ::
  "nat \<times> nat \<times> nat \<Rightarrow> gl_state \<Rightarrow> gl_state" where
  "main_rmsnorm_normalize_and_scale_currentPos gid s =
     (let idx = fst gid;
          ss = rd s 0 0;
          ss = ss / real (uget s u_size);
          ss = ss + 0.00001;
          ss = 1 / sqrt ss
      in wr 2 idx (rd s 1 (idx + uget s u_weight_offset) * (ss * rd s 2 idx)) s)"

definition main_accum :: "nat \<times> nat \<times> nat \<Rightarrow> gl_state \<Rightarrow> gl_state" where
  "main_accum gid s = (let idx = fst gid in wr 0 idx (rd s 0 idx + rd s 1 idx) s)"

definition main_positionalEncoding :: "nat \<times> nat \<times> nat \<Rightarrow> gl_state \<Rightarrow> gl_state" where
  "main_positionalEncoding gid s =
     (let idx = fst gid;
          i = idx * 2;
          q0 = rd s 2 i;
          q1 = rd s 2 (i + 1);
          k0 = rd s 3 i;
          k1 = rd s 3 (i + 1);
          fcr = rd s 0 (uget s u_freq_cis_idx_delta + (i mod uget s u_head_size) div 2);
          fci = rd s 1 (uget s u_freq_cis_idx_delta + (i mod uget s u_head_size) div 2);
          s = wr 2 i (q0 * fcr - q1 * fci) s;
          s = wr 2 (i + 1) (q0 * fci + q1 * fcr) s;
          s = wr 3 i (k0 * fcr - k1 * fci) s;
          s = wr 3 (i + 1) (k0 * fci + k1 * fcr) s
      in s)"

text \<open>The source declares both \<^verbatim>\<open>hb\<close> and \<^verbatim>\<open>hb2\<close> with \<^verbatim>\<open>layout(binding = 0)\<close>, and
  computes \<^verbatim>\<open>exp(v)\<close>.\<close>

definition main_transformer_silu_and_mulW3 :: "nat \<times> nat \<times> nat \<Rightarrow> gl_state \<Rightarrow> gl_state" where
  "main_transformer_silu_and_mulW3 gid s =
     (let idx = fst gid;
          v = rd s 0 idx;
          v = v * (1 / (1 + exp v));
          v = v * rd s 0 idx
      in wr 0 idx v s)"

definition main_transformer_get_query_vector ::
  "nat \<times> nat \<times> nat \<Rightarrow> gl_state \<Rightarrow> gl_state" where
  "main_transformer_get_query_vector gid s =
     (let h = fst gid; t = fst (snd gid);
          seq_len = uget s u_seq_len; head_size = uget s u_head_size; dim = uget s u_dim;
          loff = uget s u_layer_idx * seq_len * dim;
          q_offset = h * head_size;
          att_offset = h * seq_len;
          k_offset = loff + t * dim + h * head_size;
          score = fold (\<lambda>i score. score + rd s 0 (i + q_offset) * rd s 1 (i + k_offset))
                    [0..<head_size] 0;
          score = score / sqrt (real head_size)
      in wr 2 (t + att_offset) score s)"

definition main_transformer_build_attMat :: "nat \<times> nat \<times> nat \<Rightarrow> gl_state \<Rightarrow> gl_state" where
  "main_transformer_build_attMat gid s =
     (let h = fst gid; i = fst (snd gid); t = snd (snd gid);
          seq_len = uget s u_seq_len; head_size = uget s u_head_size; dim = uget s u_dim;
          pos = uget s u_pos;
          loff = uget s u_layer_idx * seq_len * dim;
          att_offset = h * seq_len;
          v_offset = loff + t * dim + h * head_size;
          a = rd s 1 (t + att_offset);
          attMatVal = a * rd s 0 (i + v_offset)
      in wr 2 (h * pos * head_size + i * pos + t) attMatVal s)"

definition main_transformer_softmax_input :: "nat \<times> nat \<times> nat \<Rightarrow> gl_state \<Rightarrow> gl_state" where
  "main_transformer_softmax_input gid s =
     (let h = fst gid; t = fst (snd gid);
          srcIdx = h * uget s u_seq_len + t;
          dstIdx = h * (uget s u_pos + 1) + t
      in wr 1 dstIdx (rd s 0 srcIdx) s)"

definition main_transformer_softmax_output :: "nat \<times> nat \<times> nat \<Rightarrow> gl_state \<Rightarrow> gl_state" where
  "main_transformer_softmax_output gid s =
     (let h = fst gid; t = fst (snd gid);
          dstIdx = h * uget s u_seq_len + t;
          srcIdx = h * (uget s u_pos + 1) + t
      in wr 1 dstIdx (rd s 0 srcIdx) s)"

definition main_temperature :: "nat \<times> nat \<times> nat \<Rightarrow> gl_state \<Rightarrow> gl_state" where
  "main_temperature gid s =
     (let index = fst gid in wr 0 index (rd s 0 index / uni_temperature s) s)"

text \<open>The source of \<^verbatim>\<open>shader_argmax\<close> is not valid GLSL (statements without their
  semicolon, floats assigned to \<^verbatim>\<open>int\<close>): \<^verbatim>\<open>createComputeProgram\<close> returns 0 for it, and
  using program 0 runs nothing. The host never puts it in use.\<close>

fun invoke :: "program \<Rightarrow> nat \<times> nat \<times> nat \<Rightarrow> gl_state \<Rightarrow> gl_state" where
  "invoke program_0 = (\<lambda>gid s. s)"
| "invoke shader_matmul = main_matmul"
| "invoke shader_rmsnorm_squares_and_sum = main_rmsnorm_squares_and_sum"
| "invoke shader_sum = main_sum"
| "invoke shader_rmsnorm_normalize_and_scale = main_rmsnorm_normalize_and_scale"
| "invoke shader_rmsnorm_normalize_and_scale_currentPos =
     main_rmsnorm_normalize_and_scale_currentPos"
| "invoke shader_accum = main_accum"
| "invoke shader_positionalEncoding = main_positionalEncoding"
| "invoke shader_max = main_max"
| "invoke shader_min = main_min"
| "invoke shader_softmax_exp_and_sum = main_softmax_exp_and_sum"
| "invoke shader_softmax_normalize = main_softmax_normalize"
| "invoke shader_transformer_silu_and_mulW3 = main_transformer_silu_and_mulW3"
| "invoke shader_transformer_get_query_vector = main_transformer_get_query_vector"
| "invoke shader_transformer_build_attMat = main_transformer_build_attMat"
| "invoke shader_transformer_softmax_input = main_transformer_softmax_input"
| "invoke shader_transformer_softmax_output = main_transformer_softmax_output"
| "invoke shader_temperature = main_temperature"
| "invoke shader_argmax_set_index = main_argmax_set_index"
| "invoke shader_argmax = (\<lambda>gid s. s)"

definition grid :: "nat \<Rightarrow> nat \<Rightarrow> nat \<Rightarrow> (nat \<times> nat \<times> nat) list" where
  "grid gx gy gz = concat (map (\<lambda>z. concat (map (\<lambda>y. map (\<lambda>x. (x, y, z)) [0..<gx]) [0..<gy])) [0..<gz])"

definition glDispatchCompute :: "nat \<Rightarrow> nat \<Rightarrow> nat \<Rightarrow> gl_state \<Rightarrow> gl_state" where
  "glDispatchCompute gx gy gz s =
     (fold (invoke (prg s)) (grid gx gy gz) s)
       \<lparr>calls := calls s @ [\<lparr>c_program = prg s, c_grid = (gx, gy, gz),
                             c_uniforms = uni s (prg s)\<rparr>]\<rparr>"

section \<open>The host program\<close>

subsection \<open>Neural net blocks\<close>


text \<open>
  The \<^verbatim>\<open>while (nextStepSize != 1)\<close> loop that \<^verbatim>\<open>rmsnorm\<close> and \<^verbatim>\<open>softmax\<close> both contain,
  word for word but for the y extent of the grid (\<^verbatim>\<open>1\<close> in \<^verbatim>\<open>rmsnorm\<close>, \<^verbatim>\<open>size_y\<close> in
  \<^verbatim>\<open>softmax\<close>), which is the parameter \<open>gy\<close>. It returns the loop's variables
  \<^verbatim>\<open>currentBuffer\<close> and \<^verbatim>\<open>nextBuffer\<close> with the state.
\<close>

partial_function (option) sum_loop ::
  "nat \<Rightarrow> buffer \<Rightarrow> buffer \<Rightarrow> nat \<Rightarrow> gl_state \<Rightarrow> (buffer \<times> buffer \<times> gl_state) option" where
  "sum_loop gy currentBuffer nextBuffer nextStepSize s =
     (if nextStepSize \<noteq> 1
      then
        (let tmp = currentBuffer;
             currentBuffer = nextBuffer;
             nextBuffer = tmp;
             currentStepSize = nextStepSize;
             nextStepSize = currentStepSize div 2;
             nextStepSize = (if currentStepSize mod 2 = 1 then nextStepSize + 1 else nextStepSize);
             s = glBindBufferBase 0 currentBuffer s;
             s = glBindBufferBase 1 nextBuffer s;
             s = glUseProgram shader_sum s;
             s = glUniform1i (shader_sum, u_insize) currentStepSize s;
             s = glUniform1i (shader_sum, u_shape0) nextStepSize s;
             s = glDispatchCompute nextStepSize gy 1 s
         in sum_loop gy currentBuffer nextBuffer nextStepSize s)
      else Some (currentBuffer, nextBuffer, s))"

definition rmsnorm ::
  "buffer \<Rightarrow> buffer \<Rightarrow> buffer \<Rightarrow> nat \<Rightarrow> nat \<Rightarrow> gl_state \<Rightarrow> gl_state option" where
  "rmsnorm out x weight size' weight_offset s =
     (let currentStepSize = size';
          nextStepSize = currentStepSize div 2;
          currentBuffer = s_mulBuffer_1;
          nextBuffer = s_mulBuffer_2;
          nextStepSize = (if currentStepSize mod 2 = 1 then nextStepSize + 1 else nextStepSize);
          s = glBindBufferBase 0 x s;
          s = glBindBufferBase 1 nextBuffer s;
          s = glUseProgram shader_rmsnorm_squares_and_sum s;
          s = glUniform1i (shader_rmsnorm_squares_and_sum, u_insize) currentStepSize s;
          s = glDispatchCompute nextStepSize 1 1 s
      in case sum_loop 1 currentBuffer nextBuffer nextStepSize s of
           None \<Rightarrow> None
         | Some (currentBuffer, nextBuffer, s) \<Rightarrow>
             if out = x
             then
               (let s = glBindBufferBase 0 nextBuffer s;
                    s = glBindBufferBase 1 weight s;
                    s = glBindBufferBase 2 x s;
                    s = glUseProgram shader_rmsnorm_normalize_and_scale_currentPos s;
                    s = glUniform1i (shader_rmsnorm_normalize_and_scale_currentPos, u_size) size' s;
                    s = glUniform1i (shader_rmsnorm_normalize_and_scale_currentPos, u_weight_offset)
                          weight_offset s
                in Some (glDispatchCompute size' 1 1 s))
             else
               (let s = glBindBufferBase 0 nextBuffer s;
                    s = glBindBufferBase 1 weight s;
                    s = glBindBufferBase 2 x s;
                    s = glBindBufferBase 3 out s;
                    s = glUseProgram shader_rmsnorm_normalize_and_scale s;
                    s = glUniform1i (shader_rmsnorm_normalize_and_scale, u_size) size' s;
                    s = glUniform1i (shader_rmsnorm_normalize_and_scale, u_weight_offset)
                          weight_offset s
                in Some (glDispatchCompute size' 1 1 s)))"

text \<open>The \<^verbatim>\<open>do ... while (nextStepSize != 1)\<close> loop of \<^verbatim>\<open>softmax\<close>, which reduces with
  \<^verbatim>\<open>shader_max\<close>. Its first pass reads the buffer the swap makes current
  (\<^verbatim>\<open>mulBuffer_2\<close>); the host does not bind \<^verbatim>\<open>x\<close> in this loop.

  \<^verbatim>\<open>softmax\<close> and \<^verbatim>\<open>transformer_softmax\<close> declare a local a second time in the same
  scope (\<^verbatim>\<open>int shape0\<close>, \<^verbatim>\<open>int uniformVar\<close>); the model reads the second declaration as
  an assignment to the same variable.\<close>

partial_function (option) softmax_max_loop ::
  "nat \<Rightarrow> buffer \<Rightarrow> buffer \<Rightarrow> nat \<Rightarrow> gl_state \<Rightarrow> (buffer \<times> buffer \<times> gl_state) option" where
  "softmax_max_loop size_y currentBuffer nextBuffer nextStepSize s =
     (let tmp = currentBuffer;
          currentBuffer = nextBuffer;
          nextBuffer = tmp;
          currentStepSize = nextStepSize;
          nextStepSize = currentStepSize div 2;
          nextStepSize = (if currentStepSize mod 2 = 1 then nextStepSize + 1 else nextStepSize);
          s = glBindBufferBase 0 currentBuffer s;
          s = glBindBufferBase 1 nextBuffer s;
          s = glUseProgram shader_max s;
          s = glUniform1i (shader_max, u_insize) currentStepSize s;
          s = glUniform1i (shader_max, u_shape0) nextStepSize s;
          s = glDispatchCompute nextStepSize size_y 1 s
      in if nextStepSize \<noteq> 1
         then softmax_max_loop size_y currentBuffer nextBuffer nextStepSize s
         else Some (currentBuffer, nextBuffer, s))"

definition softmax :: "buffer \<Rightarrow> nat \<Rightarrow> nat \<Rightarrow> gl_state \<Rightarrow> gl_state option" where
  "softmax x size_x size_y s =
     (case softmax_max_loop size_y s_mulBuffer_1 s_mulBuffer_2 size_x s of
        None \<Rightarrow> None
      | Some (currentBuffer, nextBuffer, s) \<Rightarrow>
         (let resBuffer_max = nextBuffer;
              currentStepSize = size_x;
              nextStepSize = currentStepSize div 2;
              nextBuffer = s_mulBuffer_3;
              nextStepSize = (if currentStepSize mod 2 = 1 then nextStepSize + 1 else nextStepSize);
              s = glBindBufferBase 0 x s;
              s = glBindBufferBase 1 resBuffer_max s;
              s = glBindBufferBase 2 nextBuffer s;
              s = glUseProgram shader_softmax_exp_and_sum s;
              s = glUniform1i (shader_softmax_exp_and_sum, u_insize) currentStepSize s;
              s = glUniform1i (shader_softmax_exp_and_sum, u_shape0) nextStepSize s;
              s = glDispatchCompute nextStepSize size_y 1 s
          in case sum_loop size_y currentBuffer nextBuffer nextStepSize s of
               None \<Rightarrow> None
             | Some (currentBuffer, nextBuffer, s) \<Rightarrow>
                (let resBuffer_sum = nextBuffer;
                     s = glBindBufferBase 0 resBuffer_sum s;
                     s = glBindBufferBase 1 resBuffer_max s;
                     s = glBindBufferBase 2 x s;
                     s = glUseProgram shader_softmax_normalize s;
                     s = glUniform1i (shader_softmax_normalize, u_shape0) size_x s
                 in Some (glDispatchCompute size_x size_y 1 s))))"




definition matmul ::
  "buffer \<Rightarrow> buffer \<Rightarrow> buffer \<Rightarrow> nat \<Rightarrow> nat \<Rightarrow> nat \<Rightarrow> nat \<Rightarrow> gl_state \<Rightarrow> gl_state" where
  "matmul xout x w n d x_offset w_offset s =
     (let s = glBindBufferBase 0 x s;
          s = glBindBufferBase 1 w s;
          s = glBindBufferBase 2 xout s;
          s = glUseProgram shader_matmul s;
          s = glUniform1i (shader_matmul, u_n) n s;
          s = glUniform1i (shader_matmul, u_x_offset) x_offset s;
          s = glUniform1i (shader_matmul, u_w_offset) w_offset s
      in glDispatchCompute d 1 1 s)"

subsection \<open>The forward pass\<close>

record Config =
  dim :: nat
  hidden_dim :: nat
  n_layers :: nat
  n_heads :: nat
  n_kv_heads :: nat
  vocab_size :: nat
  seq_len :: nat



definition layer_rope :: "Config \<Rightarrow> nat \<Rightarrow> nat \<Rightarrow> nat \<Rightarrow> gl_state \<Rightarrow> gl_state" where
  "layer_rope p pos head_size freq_cis_idx_delta s =
     (let s = glBindBufferBase 0 w_freq_cis_real s;
          s = glBindBufferBase 1 w_freq_cis_imag s;
          s = glBindBufferBase 2 s_q s;
          s = glBindBufferBase 2 s_k s;
          s = glUseProgram shader_positionalEncoding s;
          s = glUniform1i (shader_positionalEncoding, u_pos) pos s;
          s = glUniform1i (shader_positionalEncoding, u_dim) (dim p) s;
          s = glUniform1i (shader_positionalEncoding, u_hidden_dim) (hidden_dim p) s;
          s = glUniform1i (shader_positionalEncoding, u_freq_cis_idx_delta) freq_cis_idx_delta s;
          s = glUniform1i (shader_positionalEncoding, u_head_size) head_size s
      in glDispatchCompute (dim p div 2) 1 1 s)"

definition layer_kv_store :: "Config \<Rightarrow> nat \<Rightarrow> nat \<Rightarrow> gl_state \<Rightarrow> gl_state" where
  "layer_kv_store p pos l s =
     (let loff = l * seq_len p * dim p;
          key_offset = sizeof_float * (loff + pos * dim p);
          value_offset = sizeof_float * (loff + pos * dim p);
          s = glCopyBufferSubData s_k s_key_cache 0 key_offset (dim p * sizeof_float) s;
          s = glCopyBufferSubData s_v s_value_cache 0 value_offset (dim p * sizeof_float) s
      in s)"

definition layer_scores :: "Config \<Rightarrow> nat \<Rightarrow> nat \<Rightarrow> nat \<Rightarrow> gl_state \<Rightarrow> gl_state" where
  "layer_scores p pos head_size l s =
     (let s = glBindBufferBase 0 s_q s;
          s = glBindBufferBase 1 s_key_cache s;
          s = glBindBufferBase 2 s_att s;
          s = glUseProgram shader_transformer_get_query_vector s;
          s = glUniform1i (shader_transformer_get_query_vector, u_seq_len) (seq_len p) s;
          s = glUniform1i (shader_transformer_get_query_vector, u_pos) pos s;
          s = glUniform1i (shader_transformer_get_query_vector, u_head_size) head_size s;
          s = glUniform1i (shader_transformer_get_query_vector, u_dim) (dim p) s;
          s = glUniform1i (shader_transformer_get_query_vector, u_layer_idx) l s
      in glDispatchCompute (n_heads p) head_size 1 s)"


definition layer_silu :: "Config \<Rightarrow> gl_state \<Rightarrow> gl_state" where
  "layer_silu p s =
     (let s = glBindBufferBase 0 s_hb s;
          s = glBindBufferBase 1 s_hb2 s;
          s = glUseProgram shader_transformer_silu_and_mulW3 s
      in glDispatchCompute (hidden_dim p) 1 1 s)"





section \<open>Buffer sizes\<close>

text \<open>The \<^verbatim>\<open>_len\<close> fields of \<^verbatim>\<open>RunState\<close> are \<^verbatim>\<open>GLuint\<close>, 32 bits, and hold byte counts.
  \<^verbatim>\<open>sizeof(float) * p->dim\<close> is computed in \<^verbatim>\<open>size_t\<close> and stored in 32 bits; the
  comparison \<^verbatim>\<open>p->vocab_size > s->mulBuffer_len\<close> converts the \<^verbatim>\<open>int\<close> to unsigned.\<close>

record RunState =
  x_len :: u32
  xb_len :: u32
  xb2_len :: u32
  hb_len :: u32
  hb2_len :: u32
  q_len :: u32
  k_len :: u32
  v_len :: u32
  att_len :: u32
  logits_len :: u32
  key_cache_len :: u32
  value_cache_len :: u32
  mulBuffer_len :: u32

definition malloc_run_state :: "Config \<Rightarrow> RunState" where
  "malloc_run_state p =
     (let mulBuffer_len = (of_nat (dim p * seq_len p * sizeof_float) :: u32);
          mulBuffer_len = (if (of_nat (vocab_size p) :: u32) > mulBuffer_len
                           then of_nat (vocab_size p) else mulBuffer_len)
      in \<lparr>x_len = of_nat (sizeof_float * dim p),
          xb_len = of_nat (sizeof_float * dim p),
          xb2_len = of_nat (sizeof_float * dim p),
          hb_len = of_nat (sizeof_float * hidden_dim p),
          hb2_len = of_nat (sizeof_float * hidden_dim p),
          q_len = of_nat (sizeof_float * dim p),
          k_len = of_nat (sizeof_float * dim p),
          v_len = of_nat (sizeof_float * dim p),
          att_len = of_nat (sizeof_float * n_heads p * seq_len p),
          logits_len = of_nat (sizeof_float * vocab_size p),
          key_cache_len = of_nat (sizeof_float * n_layers p * seq_len p * dim p),
          value_cache_len = of_nat (sizeof_float * n_layers p * seq_len p * dim p),
          mulBuffer_len = mulBuffer_len\<rparr>)"

section \<open>Sampling\<close>

text \<open>C's conversion of a \<^verbatim>\<open>float\<close> to \<^verbatim>\<open>int\<close> truncates towards zero.\<close>

definition float_to_int :: "real \<Rightarrow> int" where
  "float_to_int r = (if 0 \<le> r then \<lfloor>r\<rfloor> else \<lceil>r\<rceil>)"

text \<open>The \<^verbatim>\<open>while\<close> loop of \<^verbatim>\<open>argmax\<close>. Host and loop put \<^verbatim>\<open>shader_rmsnorm_squares_and_sum\<close>
  in use, and look the uniform locations up in \<^verbatim>\<open>shader_argmax\<close>.\<close>

partial_function (option) argmax_loop ::
  "buffer \<Rightarrow> buffer \<Rightarrow> buffer \<Rightarrow> buffer \<Rightarrow> nat \<Rightarrow> gl_state \<Rightarrow> (buffer \<times> gl_state) option" where
  "argmax_loop currentBuffer_v currentBuffer_i nextBuffer_v nextBuffer_i nextStepSize s =
     (if nextStepSize \<noteq> 1
      then
        (let tmp = currentBuffer_i;
             currentBuffer_i = nextBuffer_i;
             nextBuffer_i = tmp;
             tmp = currentBuffer_v;
             currentBuffer_v = nextBuffer_v;
             nextBuffer_v = tmp;
             currentStepSize = nextStepSize;
             nextStepSize = currentStepSize div 2;
             nextStepSize = (if currentStepSize mod 2 = 1 then nextStepSize + 1 else nextStepSize);
             s = glBindBufferBase 0 currentBuffer_v s;
             s = glBindBufferBase 1 currentBuffer_i s;
             s = glBindBufferBase 2 nextBuffer_v s;
             s = glBindBufferBase 3 nextBuffer_i s;
             s = glUseProgram shader_rmsnorm_squares_and_sum s;
             s = glUniform1i (shader_argmax, u_insize) currentStepSize s;
             s = glUniform1i (shader_argmax, u_shape0) nextStepSize s;
             s = glDispatchCompute nextStepSize 1 1 s
         in argmax_loop currentBuffer_v currentBuffer_i nextBuffer_v nextBuffer_i nextStepSize s)
      else Some (nextBuffer_i, s))"

definition argmax :: "buffer \<Rightarrow> nat \<Rightarrow> gl_state \<Rightarrow> (int \<times> gl_state) option" where
  "argmax probabilities n s =
     (let currentStepSize = n;
          nextStepSize = currentStepSize div 2;
          currentBuffer_v = s_mulBuffer_1;
          currentBuffer_i = s_mulBuffer_2;
          nextBuffer_v = s_mulBuffer_3;
          nextBuffer_i = s_mulBuffer_4;
          s = glBindBufferBase 0 probabilities s;
          s = glBindBufferBase 1 currentBuffer_i s;
          s = glUseProgram shader_argmax_set_index s;
          s = glUniform1i (shader_argmax_set_index, u_insize) n s;
          s = glDispatchCompute n 1 1 s;
          nextStepSize = (if currentStepSize mod 2 = 1 then nextStepSize + 1 else nextStepSize);
          s = glBindBufferBase 0 probabilities s;
          s = glBindBufferBase 1 currentBuffer_i s;
          s = glBindBufferBase 2 nextBuffer_v s;
          s = glBindBufferBase 3 nextBuffer_i s;
          s = glUseProgram shader_rmsnorm_squares_and_sum s;
          s = glUniform1i (shader_argmax, u_insize) currentStepSize s;
          s = glUniform1i (shader_argmax, u_shape0) nextStepSize s;
          s = glDispatchCompute nextStepSize 1 1 s
      in case argmax_loop currentBuffer_v currentBuffer_i nextBuffer_v nextBuffer_i nextStepSize s of
           None \<Rightarrow> None
         | Some (nextBuffer_i, s) \<Rightarrow>
            (let s = glBindBuffer nextBuffer_i s;
                 pOut = glMapBufferRange s;
                 res = - 1;
                 res = (case pOut of None \<Rightarrow> res | Some pOut \<Rightarrow> float_to_int (pOut 0))
             in Some (res, s)))"

text \<open>The host-side argmax the claims compare with: the first index of a largest value
  among \<open>v 0, ..., v (n - 1)\<close>, written from the specification's words (the program has no
  host-side argmax).\<close>

fun host_argmax_from :: "(nat \<Rightarrow> real) \<Rightarrow> nat \<Rightarrow> nat \<Rightarrow> nat \<Rightarrow> nat" where
  "host_argmax_from v best i 0 = best"
| "host_argmax_from v best i (Suc k) =
     host_argmax_from v (if v i > v best then i else best) (Suc i) k"

definition host_argmax :: "(nat \<Rightarrow> real) \<Rightarrow> nat \<Rightarrow> nat" where
  "host_argmax v n = host_argmax_from v 0 1 (n - 1)"



record ProbIndex =
  prob :: real
  index :: int

definition compare :: "ProbIndex \<Rightarrow> ProbIndex \<Rightarrow> int" where
  "compare a b = (if prob a > prob b then - 1 else if prob a < prob b then 1 else 0)"

text \<open>\<^verbatim>\<open>qsort(probindex, n, sizeof(ProbIndex), compare)\<close>: the library promises a list
  ordered by \<^verbatim>\<open>compare\<close> and nothing about elements that compare equal. The model sorts
  by insertion, which keeps equal elements in their order.\<close>

fun qsort_insert :: "ProbIndex \<Rightarrow> ProbIndex list \<Rightarrow> ProbIndex list" where
  "qsort_insert a [] = [a]"
| "qsort_insert a (b # bs) = (if compare a b \<le> 0 then a # b # bs else b # qsort_insert a bs)"

definition qsort :: "ProbIndex list \<Rightarrow> ProbIndex list" where
  "qsort xs = foldr qsort_insert xs []"

text \<open>The truncation loop of \<^verbatim>\<open>sample_topp\<close>; it returns \<^verbatim>\<open>cumulative_prob\<close> and
  \<^verbatim>\<open>last_idx\<close>.\<close>

fun topp_truncate ::
  "ProbIndex list \<Rightarrow> real \<Rightarrow> real \<Rightarrow> nat \<Rightarrow> nat \<Rightarrow> nat \<Rightarrow> real \<times> nat" where
  "topp_truncate probindex topp cumulative_prob i 0 last_idx = (cumulative_prob, last_idx)"
| "topp_truncate probindex topp cumulative_prob i (Suc k) last_idx =
     (let cumulative_prob = cumulative_prob + prob (probindex ! i)
      in if cumulative_prob > topp then (cumulative_prob, i)
         else topp_truncate probindex topp cumulative_prob (Suc i) k last_idx)"

text \<open>The sampling loop of \<^verbatim>\<open>sample_topp\<close>, \<^verbatim>\<open>for (int i = 0; i <= last_idx; i++)\<close>, run for
  \<open>k\<close> more indices from \<open>i\<close>.\<close>

fun topp_draw :: "ProbIndex list \<Rightarrow> real \<Rightarrow> real \<Rightarrow> nat \<Rightarrow> nat \<Rightarrow> int \<Rightarrow> int" where
  "topp_draw probindex r cdf i 0 res = res"
| "topp_draw probindex r cdf i (Suc k) res =
     (let cdf = cdf + prob (probindex ! i)
      in if r < cdf then index (probindex ! i)
         else topp_draw probindex r cdf (Suc i) k res)"

text \<open>\<^verbatim>\<open>sample_topp\<close> returns its result, the new seed, the contents of \<^verbatim>\<open>probindex\<close> and
  the state. The array \<^verbatim>\<open>probindex\<close> has \<^verbatim>\<open>vocab_size\<close> entries; \<open>n\<close> of them are filled
  and sorted.\<close>

definition sample_topp ::
  "buffer \<Rightarrow> nat \<Rightarrow> real \<Rightarrow> ProbIndex list \<Rightarrow> u64 \<Rightarrow> gl_state
     \<Rightarrow> int \<times> u64 \<times> ProbIndex list \<times> gl_state" where
  "sample_topp probabilities_gpu n topp probindex rng_seed s =
     (let s = glBindBuffer probabilities_gpu s;
          res = int n - 1
      in case glMapBufferRange s of
           None \<Rightarrow> (res, rng_seed, probindex, s)
         | Some probabilities \<Rightarrow>
            (let probindex = map (\<lambda>i. \<lparr>prob = probabilities i, index = int i\<rparr>) [0..<n]
                               @ drop n probindex;
                 probindex = qsort (take n probindex) @ drop n probindex;
                 cumulative_prob = 0;
                 last_idx = 0;
                 (cumulative_prob, last_idx) =
                    topp_truncate probindex topp cumulative_prob 0 n last_idx;
                 (r, rng_seed) = random_f32 rng_seed;
                 r = r * cumulative_prob;
                 cdf = 0;
                 res = topp_draw probindex r cdf 0 (last_idx + 1) res;
                 res = index (probindex ! last_idx)
             in (res, rng_seed, probindex, s)))"

subsection \<open>The token loop's sampling branch\<close>

text \<open>The \<^verbatim>\<open>else\<close> branch of \<^verbatim>\<open>temperature == 0.0f\<close> in \<^verbatim>\<open>main\<close>, up to the choice of the
  sampler: the temperature dispatch and the call \<^verbatim>\<open>softmax(..., config.vocab_size, 0)\<close>.\<close>

definition apply_temperature_softmax :: "Config \<Rightarrow> real \<Rightarrow> gl_state \<Rightarrow> gl_state option" where
  "apply_temperature_softmax config temperature s =
     (let s = glBindBufferBase 0 s_logits s;
          s = glUseProgram shader_temperature s;
          s = glUniform1f_temperature shader_temperature temperature s;
          s = glDispatchCompute (vocab_size config) 1 1 s
      in softmax s_logits (vocab_size config) 0 s)"

subsection \<open>The token loop\<close>







section \<open>Auxiliary definitions for the proofs\<close>

text \<open>The binding points a program writes to, read off the shader sources (every buffer
  block that is assigned in \<^verbatim>\<open>main\<close>); \<open>invoke_frame\<close> below proves the table right.\<close>

fun wbind :: "program \<Rightarrow> nat set" where
  "wbind program_0 = {}"
| "wbind shader_matmul = {2}"
| "wbind shader_rmsnorm_squares_and_sum = {1}"
| "wbind shader_sum = {1}"
| "wbind shader_rmsnorm_normalize_and_scale = {3}"
| "wbind shader_rmsnorm_normalize_and_scale_currentPos = {2}"
| "wbind shader_accum = {0}"
| "wbind shader_positionalEncoding = {2, 3}"
| "wbind shader_max = {1}"
| "wbind shader_min = {1}"
| "wbind shader_softmax_exp_and_sum = {2}"
| "wbind shader_softmax_normalize = {2}"
| "wbind shader_transformer_silu_and_mulW3 = {0}"
| "wbind shader_transformer_get_query_vector = {2}"
| "wbind shader_transformer_build_attMat = {2}"
| "wbind shader_transformer_softmax_input = {1}"
| "wbind shader_transformer_softmax_output = {1}"
| "wbind shader_temperature = {0}"
| "wbind shader_argmax_set_index = {1}"
| "wbind shader_argmax = {}"

text \<open>Rounding half up: \<^verbatim>\<open>nextStepSize = currentStepSize / 2\<close>, plus one when
  \<^verbatim>\<open>currentStepSize % 2 == 1\<close> (lemmas \<open>next_step_half_up\<close>, \<open>half_up_ceiling\<close>).\<close>

definition half_up :: "nat \<Rightarrow> nat" where
  "half_up n = (n + 1) div 2"

text \<open>The API calls of one pass of a reduction loop, as they stand in the loops of
  \<^verbatim>\<open>rmsnorm\<close>, \<^verbatim>\<open>softmax\<close> and \<^verbatim>\<open>transformer_sum\<close>: bind the current and the next buffer,
  use the program, set \<^verbatim>\<open>insize\<close> and \<^verbatim>\<open>shape0\<close>, dispatch.\<close>

definition reduce_pass ::
  "program \<Rightarrow> nat \<Rightarrow> buffer \<Rightarrow> buffer \<Rightarrow> nat \<Rightarrow> gl_state \<Rightarrow> gl_state" where
  "reduce_pass P gy a b cur s =
     glDispatchCompute (half_up cur) gy 1
       (glUniform1i (P, u_shape0) (half_up cur)
         (glUniform1i (P, u_insize) cur
           (glUseProgram P (glBindBufferBase 1 b (glBindBufferBase 0 a s)))))"

text \<open>\<open>halving_passes gy n L\<close>: the logged dispatches \<open>L\<close> are the passes of a reduction
  of rows of length \<open>n\<close>. The first pass has \<^verbatim>\<open>insize\<close> \<open>n\<close>; a pass with \<^verbatim>\<open>insize\<close>
  \<open>cur\<close> runs on the grid \<open>half_up cur \<times> gy \<times> 1\<close>, one invocation for each value it
  leaves; the next pass has \<^verbatim>\<open>insize\<close> \<open>half_up cur\<close>; and the list ends with the first
  pass that leaves one value in each of the \<open>gy\<close> rows.\<close>

fun halving_passes :: "nat \<Rightarrow> nat \<Rightarrow> call list \<Rightarrow> bool" where
  "halving_passes gy cur [] = False"
| "halving_passes gy cur (c # cs) =
     (c_uniforms c u_insize = cur \<and> c_grid c = (half_up cur, gy, 1) \<and>
      (if half_up cur = 1 then cs = [] else halving_passes gy (half_up cur) cs))"



text \<open>A start state for the concrete runs: all buffers zero, nothing bound, no program in
  use, a driver that copies between named buffers and maps buffers without failing.\<close>

definition st0 :: gl_state where
  "st0 = \<lparr>mem = (\<lambda>b i. 0), bnd = (\<lambda>i. buffer_0), target = buffer_0, prg = program_0,
          uni = (\<lambda>p u. 0), uni_temperature = 0, calls = [], copy_by_name = True,
          map_fails = False\<rparr>"

text \<open>One head of size 2, four positions; the query and every cached key are all ones,
  the scores all zero.\<close>

definition cfg_one_head :: Config where
  "cfg_one_head = \<lparr>dim = 2, hidden_dim = 2, n_layers = 1, n_heads = 1, n_kv_heads = 1,
                    vocab_size = 2, seq_len = 4\<rparr>"

definition st_ones :: gl_state where
  "st_ones = st0\<lparr>mem := (\<lambda>b i. if b = s_q \<or> b = s_key_cache then 1 else 0)\<rparr>"

text \<open>The state at the RoPE dispatch of a layer: binding point 3 holds \<^verbatim>\<open>s->xb\<close>, put
  there by the call \<^verbatim>\<open>rmsnorm(prog, s, s->xb, x, ...)\<close> that opens the layer (lemma
  \<open>layer_qkv_post\<close>). The buffers \<^verbatim>\<open>q\<close>, \<^verbatim>\<open>k\<close> and \<^verbatim>\<open>xb\<close> hold the pair \<open>(1, 0)\<close>,
  and the rotation is by a quarter turn: \<open>fcr = 0\<close>, \<open>fci = 1\<close>.\<close>

definition st_rope :: gl_state where
  "st_rope = st0\<lparr>mem := (\<lambda>b i. if b = s_q \<or> b = s_k \<or> b = s_xb then (if i = 0 then 1 else 0)
                                 else if b = w_freq_cis_imag then 1 else 0),
                  bnd := (\<lambda>i. if i = 3 then s_xb else buffer_0)\<rparr>"

text \<open>\<open>hb = [1, 1]\<close> and \<open>hb2 = [0, 1]\<close>.\<close>

definition st_silu :: gl_state where
  "st_silu = st0\<lparr>mem := (\<lambda>b i. if b = s_hb then 1
                                 else if b = s_hb2 then (if i = 0 then 0 else 1) else 0)\<rparr>"

text \<open>\<open>logits = [-2, 6]\<close>.\<close>

definition st_logits :: gl_state where
  "st_logits = st0\<lparr>mem := (\<lambda>b i. if b = s_logits
                                   then (if i = 0 then - 2 else if i = 1 then 6 else 0)
                                   else 0)\<rparr>"

text \<open>\<open>logits = [0, 0, 0, 9]\<close>.\<close>

definition st_argmax :: gl_state where
  "st_argmax = st0\<lparr>mem := (\<lambda>b i. if b = s_logits then (if i = 3 then 9 else 0) else 0)\<rparr>"

text \<open>Probabilities \<open>[1/4, 3/4]\<close> in the logits buffer, and a zeroed \<^verbatim>\<open>probindex\<close> array
  of two entries, as \<^verbatim>\<open>calloc\<close> returns it.\<close>

definition st_probs :: gl_state where
  "st_probs = st0\<lparr>mem := (\<lambda>b i. if b = s_logits
                                  then (if i = 0 then 1 / 4 else if i = 1 then 3 / 4 else 0)
                                  else 0)\<rparr>"

definition probindex0 :: "ProbIndex list" where
  "probindex0 = [\<lparr>prob = 0, index = 0\<rparr>, \<lparr>prob = 0, index = 0\<rparr>]"

text \<open>A small model with the usual vocabulary: \<open>dim * seq_len = 4096 < 32000\<close>.\<close>

definition cfg_small :: Config where
  "cfg_small = \<lparr>dim = 64, hidden_dim = 172, n_layers = 5, n_heads = 8, n_kv_heads = 8,
                vocab_size = 32000, seq_len = 64\<rparr>"




chapter \<open>Lemmas and theorems\<close>

section \<open>The random number generator\<close>

lemma xor_eq_zero_word: "(a::'a::len word) XOR b = 0 \<Longrightarrow> a = b"
  by (metis bit.xor_self xor.assoc xor.right_neutral)

text \<open>A word equal to itself shifted by a positive amount is zero: shifting it
  \<open>LENGTH('a)\<close> times over empties it.\<close>

lemma drop_fix_zero:
  fixes d :: "'a::len word"
  assumes n: "0 < n" and d: "d = drop_bit n d"
  shows "d = 0"
proof -
  have it: "d = drop_bit (k * n) d" for k
  proof (induction k)
    case 0
    show ?case by simp
  next
    case (Suc k)
    have "drop_bit (Suc k * n) d = drop_bit (k * n) (drop_bit n d)"
      by (simp add: drop_bit_drop_bit add.commute)
    with d Suc show ?case by simp
  qed
  have "LENGTH('a) \<le> LENGTH('a) * n" using n by simp
  then have "drop_bit (LENGTH('a) * n) d = 0" by (rule drop_bit_word_beyond)
  with it [of "LENGTH('a)"] show ?thesis by simp
qed

lemma push_fix_zero:
  fixes d :: "'a::len word"
  assumes n: "0 < n" and d: "d = push_bit n d"
  shows "d = 0"
proof -
  have it: "d = push_bit (k * n) d" for k
  proof (induction k)
    case 0
    show ?case by simp
  next
    case (Suc k)
    have "push_bit (Suc k * n) d = push_bit (k * n) (push_bit n d)"
      by (simp add: push_bit_push_bit add.commute)
    with d Suc show ?case by simp
  qed
  have "LENGTH('a) \<le> LENGTH('a) * n" using n by simp
  then have "push_bit (LENGTH('a) * n) d = 0" by (rule push_bit_word_beyond)
  with it [of "LENGTH('a)"] show ?thesis by simp
qed

text \<open>Hence \<open>x \<mapsto> x XOR (x >> n)\<close> and \<open>x \<mapsto> x XOR (x << n)\<close> are injective: both are
  linear over XOR, and only zero is mapped to zero.\<close>

lemma xor_drop_inj:
  fixes x y :: "'a::len word"
  assumes n: "0 < n" and e: "x XOR drop_bit n x = y XOR drop_bit n y"
  shows "x = y"
proof -
  have "(x XOR y) XOR drop_bit n (x XOR y) = (x XOR drop_bit n x) XOR (y XOR drop_bit n y)"
    by (simp add: drop_bit_xor ac_simps)
  also have "\<dots> = 0" using e by simp
  finally have "x XOR y = drop_bit n (x XOR y)" by (rule xor_eq_zero_word)
  then have "x XOR y = 0" by (rule drop_fix_zero [OF n])
  then show ?thesis by (rule xor_eq_zero_word)
qed

lemma xor_push_inj:
  fixes x y :: "'a::len word"
  assumes n: "0 < n" and e: "x XOR push_bit n x = y XOR push_bit n y"
  shows "x = y"
proof -
  have "(x XOR y) XOR push_bit n (x XOR y) = (x XOR push_bit n x) XOR (y XOR push_bit n y)"
    by (simp add: push_bit_xor ac_simps)
  also have "\<dots> = 0" using e by simp
  finally have "x XOR y = push_bit n (x XOR y)" by (rule xor_eq_zero_word)
  then have "x XOR y = 0" by (rule push_fix_zero [OF n])
  then show ?thesis by (rule xor_eq_zero_word)
qed

lemma inj_xorshift_r12: "inj xorshift_r12"
  by (rule injI) (auto simp: xorshift_r12_def intro: xor_drop_inj [of 12])

lemma inj_xorshift_l25: "inj xorshift_l25"
  by (rule injI) (auto simp: xorshift_l25_def intro: xor_push_inj [of 25])

lemma inj_xorshift_r27: "inj xorshift_r27"
  by (rule injI) (auto simp: xorshift_r27_def intro: xor_drop_inj [of 27])

lemma xorshift_linear:
  "xorshift_r12 (x XOR y) = xorshift_r12 x XOR xorshift_r12 y"
  "xorshift_l25 (x XOR y) = xorshift_l25 x XOR xorshift_l25 y"
  "xorshift_r27 (x XOR y) = xorshift_r27 x XOR xorshift_r27 y"
  by (simp_all add: xorshift_r12_def xorshift_l25_def xorshift_r27_def drop_bit_xor push_bit_xor
      ac_simps)

text \<open>An injective map of a finite type to itself is a bijection.\<close>

lemma bij_xorshift: "bij xorshift_r12" "bij xorshift_l25" "bij xorshift_r27"
  using inj_xorshift_r12 inj_xorshift_l25 inj_xorshift_r27
  by (simp_all add: bij_def finite_UNIV_inj_surj)

lemma xorshift_zero: "xorshift_r12 0 = 0" "xorshift_l25 0 = 0" "xorshift_r27 0 = 0"
  by (simp_all add: xorshift_r12_def xorshift_l25_def xorshift_r27_def)

lemma snd_random_u32: "snd (random_u32 s) = xorshift_r27 (xorshift_l25 (xorshift_r12 s))"
  by (simp add: random_u32_def Let_def)

lemma random_u32_nonzero:
  assumes s: "s \<noteq> 0"
  shows "snd (random_u32 s) \<noteq> 0"
proof -
  have a: "xorshift_r12 s \<noteq> 0"
    using s injD [OF inj_xorshift_r12, of s 0] by (auto simp: xorshift_zero)
  have b: "xorshift_l25 (xorshift_r12 s) \<noteq> 0"
    using a injD [OF inj_xorshift_l25, of "xorshift_r12 s" 0] by (auto simp: xorshift_zero)
  have c: "xorshift_r27 (xorshift_l25 (xorshift_r12 s)) \<noteq> 0"
    using b injD [OF inj_xorshift_r27, of "xorshift_l25 (xorshift_r12 s)" 0]
    by (auto simp: xorshift_zero)
  show ?thesis using c by (simp add: snd_random_u32)
qed

lemma rng_after_nonzero: "s \<noteq> 0 \<Longrightarrow> rng_after n s \<noteq> 0"
  by (induction n arbitrary: s) (simp_all add: random_u32_nonzero)

lemma random_f32_range: "0 \<le> fst (random_f32 s) \<and> fst (random_f32 s) < 1"
proof -
  obtain u s' where r: "random_u32 s = (u, s')" by (cases "random_u32 s")
  define m where "m = unat (drop_bit 8 u)"
  have "m = unat u div 2 ^ 8"
    unfolding m_def unat_drop_bit_eq by (simp add: drop_bit_eq_div)
  moreover have "unat u < 2 ^ 32" using unsigned_less [of u, where 'a = nat] by simp
  ultimately have m: "m < 16777216" by (simp add: less_mult_imp_div_less)
  have "fst (random_f32 s) = real m / 16777216"
    unfolding random_f32_def r m_def by (simp only: Let_def prod.case fst_conv)
  with m show ?thesis by simp
qed

lemma random_u32_seed_1: "snd (random_u32 1) = 33554433"
  by (simp add: random_u32_def xorshift_r12_def xorshift_l25_def xorshift_r27_def)

text \<open>
  Claim C10. If \<^verbatim>\<open>rng_seed\<close> is nonzero before a call of \<^verbatim>\<open>random_u32\<close>, it is nonzero
  after it, because each of the three xorshift steps is an invertible map of the 64-bit
  words that is linear over XOR (the new seed is the three steps applied in turn); so
  from a nonzero seed the generator never reaches zero, whatever the number of calls;
  and \<^verbatim>\<open>random_f32\<close> returns a value in \<open>[0, 1)\<close>.
\<close>

theorem rng_seed_nonzero_invariant:
  "rng_seed \<noteq> 0 \<Longrightarrow>
     snd (random_u32 rng_seed) \<noteq> 0 \<and>
     bij xorshift_r12 \<and> bij xorshift_l25 \<and> bij xorshift_r27 \<and>
     (\<forall>x y. xorshift_r12 (x XOR y) = xorshift_r12 x XOR xorshift_r12 y \<and>
            xorshift_l25 (x XOR y) = xorshift_l25 x XOR xorshift_l25 y \<and>
            xorshift_r27 (x XOR y) = xorshift_r27 x XOR xorshift_r27 y) \<and>
     snd (random_u32 rng_seed) = xorshift_r27 (xorshift_l25 (xorshift_r12 rng_seed)) \<and>
     (\<forall>n. rng_after n rng_seed \<noteq> 0) \<and>
     0 \<le> fst (random_f32 rng_seed) \<and> fst (random_f32 rng_seed) < 1"
  using random_u32_nonzero rng_after_nonzero random_f32_range bij_xorshift xorshift_linear
    snd_random_u32 by blast

theorem rng_seed_nonzero_invariant_witness:
  "(1::u64) \<noteq> 0 \<and> snd (random_u32 1) = 33554433 \<and> snd (random_u32 1) \<noteq> 0 \<and>
   rng_after 2 1 \<noteq> 0 \<and> 0 \<le> fst (random_f32 1) \<and> fst (random_f32 1) < 1"
proof -
  have h: "(1::u64) \<noteq> 0" by simp
  from rng_seed_nonzero_invariant [OF h] h random_u32_seed_1 show ?thesis by blast
qed

section \<open>The compute API: what a call changes\<close>

lemma wr_fields [simp]:
  "bnd (wr b i v s) = bnd s" "prg (wr b i v s) = prg s" "uni (wr b i v s) = uni s"
  "target (wr b i v s) = target s" "calls (wr b i v s) = calls s"
  "uni_temperature (wr b i v s) = uni_temperature s"
  "copy_by_name (wr b i v s) = copy_by_name s" "map_fails (wr b i v s) = map_fails s"
  by (simp_all add: wr_def)

lemma wr_mem: "mem (wr b i v s) = (mem s)(bnd s b := (mem s (bnd s b))(i := v))"
  by (simp add: wr_def)

lemma wr_mem_other: "bnd s b \<noteq> c \<Longrightarrow> mem (wr b i v s) c = mem s c"
  by (simp add: wr_def)

lemma uget_wr [simp]: "uget (wr b i v s) n = uget s n"
  by (simp add: uget_def)

lemmas main_defs =
  main_matmul_def main_rmsnorm_squares_and_sum_def main_softmax_exp_and_sum_def
  main_softmax_normalize_def main_sum_def main_max_def main_min_def
  main_argmax_set_index_def main_rmsnorm_normalize_and_scale_def
  main_rmsnorm_normalize_and_scale_currentPos_def main_accum_def
  main_positionalEncoding_def main_transformer_silu_and_mulW3_def
  main_transformer_get_query_vector_def main_transformer_build_attMat_def
  main_transformer_softmax_input_def main_transformer_softmax_output_def
  main_temperature_def

text \<open>A shader invocation changes buffer contents only, and only of the buffers bound
  where the program writes.\<close>

lemma invoke_fields [simp]:
  "bnd (invoke P gid s) = bnd s" "prg (invoke P gid s) = prg s" "uni (invoke P gid s) = uni s"
  "target (invoke P gid s) = target s" "calls (invoke P gid s) = calls s"
  "uni_temperature (invoke P gid s) = uni_temperature s"
  "copy_by_name (invoke P gid s) = copy_by_name s" "map_fails (invoke P gid s) = map_fails s"
  by (cases P; simp add: main_defs Let_def)+

lemma invoke_frame:
  "\<forall>i\<in>wbind P. bnd s i \<noteq> b \<Longrightarrow> mem (invoke P gid s) b = mem s b"
  by (cases P; simp add: main_defs Let_def wr_mem_other)

lemma fold_invoke_fields [simp]:
  "bnd (fold (invoke P) ids s) = bnd s" "prg (fold (invoke P) ids s) = prg s"
  "uni (fold (invoke P) ids s) = uni s" "target (fold (invoke P) ids s) = target s"
  "calls (fold (invoke P) ids s) = calls s"
  "uni_temperature (fold (invoke P) ids s) = uni_temperature s"
  "copy_by_name (fold (invoke P) ids s) = copy_by_name s"
  "map_fails (fold (invoke P) ids s) = map_fails s"
  by (induction ids arbitrary: s; simp)+

lemma fold_invoke_frame:
  "\<forall>i\<in>wbind P. bnd s i \<noteq> b \<Longrightarrow> mem (fold (invoke P) ids s) b = mem s b"
  by (induction ids arbitrary: s) (simp_all add: invoke_frame)

lemma glDispatchCompute_fields [simp]:
  "bnd (glDispatchCompute gx gy gz s) = bnd s" "prg (glDispatchCompute gx gy gz s) = prg s"
  "uni (glDispatchCompute gx gy gz s) = uni s" "target (glDispatchCompute gx gy gz s) = target s"
  "uni_temperature (glDispatchCompute gx gy gz s) = uni_temperature s"
  "copy_by_name (glDispatchCompute gx gy gz s) = copy_by_name s"
  "map_fails (glDispatchCompute gx gy gz s) = map_fails s"
  "calls (glDispatchCompute gx gy gz s) =
     calls s @ [\<lparr>c_program = prg s, c_grid = (gx, gy, gz), c_uniforms = uni s (prg s)\<rparr>]"
  by (simp_all add: glDispatchCompute_def)

lemma glDispatchCompute_frame:
  "\<forall>i\<in>wbind (prg s). bnd s i \<noteq> b \<Longrightarrow> mem (glDispatchCompute gx gy gz s) b = mem s b"
  by (simp add: glDispatchCompute_def fold_invoke_frame)

lemma glBindBufferBase_fields [simp]:
  "bnd (glBindBufferBase i b s) = (bnd s)(i := b)" "mem (glBindBufferBase i b s) = mem s"
  "prg (glBindBufferBase i b s) = prg s" "uni (glBindBufferBase i b s) = uni s"
  "target (glBindBufferBase i b s) = b" "calls (glBindBufferBase i b s) = calls s"
  "uni_temperature (glBindBufferBase i b s) = uni_temperature s"
  "copy_by_name (glBindBufferBase i b s) = copy_by_name s"
  "map_fails (glBindBufferBase i b s) = map_fails s"
  by (simp_all add: glBindBufferBase_def)

lemma glUseProgram_fields [simp]:
  "bnd (glUseProgram p s) = bnd s" "mem (glUseProgram p s) = mem s"
  "prg (glUseProgram p s) = p" "uni (glUseProgram p s) = uni s"
  "target (glUseProgram p s) = target s" "calls (glUseProgram p s) = calls s"
  "uni_temperature (glUseProgram p s) = uni_temperature s"
  "copy_by_name (glUseProgram p s) = copy_by_name s"
  "map_fails (glUseProgram p s) = map_fails s"
  by (simp_all add: glUseProgram_def)

lemma glUniform1i_fields [simp]:
  "bnd (glUniform1i loc v s) = bnd s" "mem (glUniform1i loc v s) = mem s"
  "prg (glUniform1i loc v s) = prg s"
  "target (glUniform1i loc v s) = target s" "calls (glUniform1i loc v s) = calls s"
  "uni_temperature (glUniform1i loc v s) = uni_temperature s"
  "copy_by_name (glUniform1i loc v s) = copy_by_name s"
  "map_fails (glUniform1i loc v s) = map_fails s"
  by (simp_all add: glUniform1i_def)

lemma glUniform1i_uni:
  "uni (glUniform1i (P, n) v s) =
     (if P = prg s then (uni s)(P := (uni s P)(n := v)) else uni s)"
  by (simp add: glUniform1i_def)

text \<open>The rules that run a dispatch on a concrete grid.\<close>

lemmas gl_eval =
  glDispatchCompute_def grid_def upt_conv_Cons main_defs Let_def wr_mem rd_def uget_def
  glUniform1i_uni

section \<open>The reduction loops\<close>

lemma next_step_half_up: "(if n mod 2 = 1 then n div 2 + 1 else n div 2) = half_up n"
  unfolding half_up_def by presburger

lemma half_up_ceiling: "half_up n = nat \<lceil>real n / 2\<rceil>"
proof -
  have "\<lceil>real n / 2\<rceil> = int (half_up n)"
  proof (rule ceiling_unique)
    show "of_int (int (half_up n)) - 1 < real n / 2"
    proof -
      have "2 * half_up n < n + 2" unfolding half_up_def by presburger
      then have "real (2 * half_up n) < real (n + 2)"
        by (simp only: of_nat_less_iff)
      then show ?thesis by simp
    qed
    show "real n / 2 \<le> of_int (int (half_up n))"
    proof -
      have "n \<le> 2 * half_up n" unfolding half_up_def by presburger
      then have "real n \<le> real (2 * half_up n)"
        by (simp only: of_nat_le_iff)
      then show ?thesis by simp
    qed
  qed
  then show ?thesis by simp
qed

lemma half_up_less: "Suc 0 \<le> n \<Longrightarrow> n \<noteq> Suc 0 \<Longrightarrow> half_up n < n"
  unfolding half_up_def by presburger

lemma half_up_pos: "Suc 0 \<le> n \<Longrightarrow> Suc 0 \<le> half_up n"
  unfolding half_up_def by presburger

lemma reduce_pass_fields [simp]:
  "bnd (reduce_pass P gy a b cur s) = (bnd s)(0 := a, 1 := b)"
  "prg (reduce_pass P gy a b cur s) = P"
  "target (reduce_pass P gy a b cur s) = b"
  "copy_by_name (reduce_pass P gy a b cur s) = copy_by_name s"
  "map_fails (reduce_pass P gy a b cur s) = map_fails s"
  "uni_temperature (reduce_pass P gy a b cur s) = uni_temperature s"
  by (simp_all add: reduce_pass_def)

lemma reduce_pass_calls:
  "calls (reduce_pass P gy a b cur s) =
     calls s @ [\<lparr>c_program = P, c_grid = (half_up cur, gy, 1),
                 c_uniforms = (uni s P)(u_insize := cur, u_shape0 := half_up cur)\<rparr>]"
  by (simp add: reduce_pass_def glUniform1i_uni)

lemma reduce_pass_frame:
  "wbind P = {1} \<Longrightarrow> c \<noteq> b \<Longrightarrow> mem (reduce_pass P gy a b cur s) c = mem s c"
  by (simp add: reduce_pass_def glDispatchCompute_frame)

lemma sum_loop_unfold:
  "sum_loop gy cb nb nx s =
     (if nx \<noteq> 1 then sum_loop gy nb cb (half_up nx) (reduce_pass shader_sum gy nb cb nx s)
      else Some (cb, nb, s))"
  by (subst sum_loop.simps) (simp only: Let_def next_step_half_up reduce_pass_def)

lemma softmax_max_loop_unfold:
  "softmax_max_loop gy cb nb nx s =
     (if half_up nx \<noteq> 1
      then softmax_max_loop gy nb cb (half_up nx) (reduce_pass shader_max gy nb cb nx s)
      else Some (nb, cb, reduce_pass shader_max gy nb cb nx s))"
  by (subst softmax_max_loop.simps) (simp only: Let_def next_step_half_up reduce_pass_def)


lemma sum_loop_post:
  assumes "1 \<le> nx"
  shows "\<exists>cb' nb' s' L. sum_loop gy cb nb nx s = Some (cb', nb', s') \<and>
           ((cb', nb') = (cb, nb) \<or> (cb', nb') = (nb, cb)) \<and>
           (\<forall>b. b \<noteq> cb \<and> b \<noteq> nb \<longrightarrow> mem s' b = mem s b) \<and>
           calls s' = calls s @ L \<and>
           (if nx = 1 then L = [] else halving_passes gy nx L) \<and>
           (\<forall>c\<in>set L. c_program c = shader_sum)"
  using assms
proof (induction nx arbitrary: cb nb s rule: less_induct)
  case (less nx)
  show ?case
  proof (cases "nx = 1")
    case True
    then show ?thesis by (subst sum_loop_unfold) simp
  next
    case False
    with less.prems have h: "half_up nx < nx" "1 \<le> half_up nx"
      by (simp_all add: half_up_less half_up_pos)
    let ?s1 = "reduce_pass shader_sum gy nb cb nx s"
    from less.IH [OF h, of nb cb ?s1] obtain cb' nb' s' L where
      run: "sum_loop gy nb cb (half_up nx) ?s1 = Some (cb', nb', s')" and
      bufs: "(cb', nb') = (nb, cb) \<or> (cb', nb') = (cb, nb)" and
      frame: "\<forall>b. b \<noteq> nb \<and> b \<noteq> cb \<longrightarrow> mem s' b = mem ?s1 b" and
      log: "calls s' = calls ?s1 @ L" and
      chain: "if half_up nx = 1 then L = [] else halving_passes gy (half_up nx) L" and
      progs: "\<forall>c\<in>set L. c_program c = shader_sum"
      by blast
    let ?c = "\<lparr>c_program = shader_sum, c_grid = (half_up nx, gy, 1),
               c_uniforms = (uni s shader_sum)(u_insize := nx, u_shape0 := half_up nx)\<rparr>"
    have 1: "sum_loop gy cb nb nx s = Some (cb', nb', s')"
      using False run by (subst sum_loop_unfold) simp
    have 2: "\<forall>b. b \<noteq> cb \<and> b \<noteq> nb \<longrightarrow> mem s' b = mem s b"
      using frame by (simp add: reduce_pass_frame)
    have 3: "calls s' = calls s @ (?c # L)"
      using log by (simp add: reduce_pass_calls)
    have 4: "halving_passes gy nx (?c # L)"
      using chain by simp
    have 5: "\<forall>c\<in>set (?c # L). c_program c = shader_sum"
      using progs by simp
    show ?thesis
      by (rule exI [of _ cb'], rule exI [of _ nb'], rule exI [of _ s'], rule exI [of _ "?c # L"])
        (use 1 2 3 4 5 bufs False in auto)
  qed
qed


lemma halving_passes_last:
  "halving_passes gy n L \<Longrightarrow> c_grid (last L) = (1, gy, 1)"
proof (induction L arbitrary: n)
  case Nil
  then show ?case by simp
next
  case (Cons c cs)
  show ?case
  proof (cases "half_up n = 1")
    case True
    with Cons.prems show ?thesis by simp
  next
    case False
    with Cons.prems have "halving_passes gy (half_up n) cs" by simp
    moreover from this have "cs \<noteq> []" by (cases cs) simp_all
    ultimately show ?thesis using Cons.IH by simp
  qed
qed

lemma softmax_max_loop_post:
  assumes "1 \<le> nx"
  shows "\<exists>cb' nb' s' L. softmax_max_loop gy cb nb nx s = Some (cb', nb', s') \<and>
           ((cb', nb') = (cb, nb) \<or> (cb', nb') = (nb, cb)) \<and>
           (\<forall>b. b \<noteq> cb \<and> b \<noteq> nb \<longrightarrow> mem s' b = mem s b) \<and>
           calls s' = calls s @ L \<and>
           halving_passes gy nx L \<and>
           (\<forall>c\<in>set L. c_program c = shader_max)"
  using assms
proof (induction nx arbitrary: cb nb s rule: less_induct)
  case (less nx)
  let ?s1 = "reduce_pass shader_max gy nb cb nx s"
  let ?c = "\<lparr>c_program = shader_max, c_grid = (half_up nx, gy, 1),
             c_uniforms = (uni s shader_max)(u_insize := nx, u_shape0 := half_up nx)\<rparr>"
  have log1: "calls ?s1 = calls s @ [?c]" by (simp add: reduce_pass_calls)
  have frame1: "\<forall>b. b \<noteq> cb \<and> b \<noteq> nb \<longrightarrow> mem ?s1 b = mem s b"
    by (simp add: reduce_pass_frame)
  show ?case
  proof (cases "half_up nx = 1")
    case True
    have 1: "softmax_max_loop gy cb nb nx s = Some (nb, cb, ?s1)"
      using True by (subst softmax_max_loop_unfold) simp
    have 4: "halving_passes gy nx [?c]" using True by simp
    show ?thesis
      by (rule exI [of _ nb], rule exI [of _ cb], rule exI [of _ ?s1], rule exI [of _ "[?c]"])
        (use 1 frame1 log1 4 in auto)
  next
    case False
    then have "nx \<noteq> 1" by (auto simp: half_up_def)
    with less.prems have h: "half_up nx < nx" "1 \<le> half_up nx"
      by (simp_all add: half_up_less half_up_pos)
    from less.IH [OF h, of nb cb ?s1] obtain cb' nb' s' L where
      run: "softmax_max_loop gy nb cb (half_up nx) ?s1 = Some (cb', nb', s')" and
      bufs: "(cb', nb') = (nb, cb) \<or> (cb', nb') = (cb, nb)" and
      frame: "\<forall>b. b \<noteq> nb \<and> b \<noteq> cb \<longrightarrow> mem s' b = mem ?s1 b" and
      log: "calls s' = calls ?s1 @ L" and
      chain: "halving_passes gy (half_up nx) L" and
      progs: "\<forall>c\<in>set L. c_program c = shader_max"
      by blast
    have 1: "softmax_max_loop gy cb nb nx s = Some (cb', nb', s')"
      using False run by (subst softmax_max_loop_unfold) simp
    have 2: "\<forall>b. b \<noteq> cb \<and> b \<noteq> nb \<longrightarrow> mem s' b = mem s b"
      using frame frame1 by simp
    have 3: "calls s' = calls s @ (?c # L)"
      using log log1 by simp
    have 4: "halving_passes gy nx (?c # L)"
      using chain False by simp
    have 5: "\<forall>c\<in>set (?c # L). c_program c = shader_max"
      using progs by simp
    show ?thesis
      by (rule exI [of _ cb'], rule exI [of _ nb'], rule exI [of _ s'], rule exI [of _ "?c # L"])
        (use 1 2 3 4 5 bufs in auto)
  qed
qed



lemma rmsnorm_post:
  assumes "1 \<le> n"
  shows "\<exists>s' R F. rmsnorm out x w n wo s = Some s' \<and>
           (\<forall>b. b \<noteq> s_mulBuffer_1 \<and> b \<noteq> s_mulBuffer_2 \<and> b \<noteq> out \<longrightarrow> mem s' b = mem s b) \<and>
           (out \<noteq> x \<longrightarrow> bnd s' 3 = out) \<and>
           calls s' = calls s @ R @ [F] \<and>
           halving_passes 1 n R \<and>
           c_program (hd R) = shader_rmsnorm_squares_and_sum \<and>
           (\<forall>c\<in>set (tl R). c_program c = shader_sum)"
proof -
  let ?s1 = "glDispatchCompute (half_up n) 1 1
               (glUniform1i (shader_rmsnorm_squares_and_sum, u_insize) n
                 (glUseProgram shader_rmsnorm_squares_and_sum
                   (glBindBufferBase 1 s_mulBuffer_2 (glBindBufferBase 0 x s))))"
  let ?c = "\<lparr>c_program = shader_rmsnorm_squares_and_sum, c_grid = (half_up n, 1, 1),
             c_uniforms = (uni s shader_rmsnorm_squares_and_sum)(u_insize := n)\<rparr>"
  have log1: "calls ?s1 = calls s @ [?c]" by (simp add: glUniform1i_uni)
  have frame1: "\<forall>b. b \<noteq> s_mulBuffer_2 \<longrightarrow> mem ?s1 b = mem s b"
    by (simp add: glDispatchCompute_frame)
  from assms have "1 \<le> half_up n" by (simp add: half_up_pos)
  from sum_loop_post [OF this, of 1 s_mulBuffer_1 s_mulBuffer_2 ?s1]
  obtain cb nb s2 L where
    run: "sum_loop 1 s_mulBuffer_1 s_mulBuffer_2 (half_up n) ?s1 = Some (cb, nb, s2)" and
    frame2: "\<forall>b. b \<noteq> s_mulBuffer_1 \<and> b \<noteq> s_mulBuffer_2 \<longrightarrow> mem s2 b = mem ?s1 b" and
    log2: "calls s2 = calls ?s1 @ L" and
    chain: "if half_up n = 1 then L = [] else halving_passes 1 (half_up n) L" and
    progs: "\<forall>c\<in>set L. c_program c = shader_sum"
    by blast
  define s3 where "s3 =
    (if out = x
     then glDispatchCompute n 1 1
            (glUniform1i (shader_rmsnorm_normalize_and_scale_currentPos, u_weight_offset) wo
              (glUniform1i (shader_rmsnorm_normalize_and_scale_currentPos, u_size) n
                (glUseProgram shader_rmsnorm_normalize_and_scale_currentPos
                  (glBindBufferBase 2 x (glBindBufferBase 1 w (glBindBufferBase 0 nb s2))))))
     else glDispatchCompute n 1 1
            (glUniform1i (shader_rmsnorm_normalize_and_scale, u_weight_offset) wo
              (glUniform1i (shader_rmsnorm_normalize_and_scale, u_size) n
                (glUseProgram shader_rmsnorm_normalize_and_scale
                  (glBindBufferBase 3 out
                    (glBindBufferBase 2 x (glBindBufferBase 1 w (glBindBufferBase 0 nb s2))))))))"
  have 1: "rmsnorm out x w n wo s = Some s3"
    unfolding rmsnorm_def Let_def next_step_half_up using run by (simp add: s3_def)
  have frame3: "\<forall>b. b \<noteq> out \<longrightarrow> mem s3 b = mem s2 b"
    by (simp add: s3_def glDispatchCompute_frame)
  have 2: "\<forall>b. b \<noteq> s_mulBuffer_1 \<and> b \<noteq> s_mulBuffer_2 \<and> b \<noteq> out \<longrightarrow> mem s3 b = mem s b"
    using frame1 frame2 frame3 by simp
  have 3: "out \<noteq> x \<longrightarrow> bnd s3 3 = out" by (simp add: s3_def)
  have "\<exists>F. calls s3 = calls s2 @ [F]" by (cases "out = x") (simp_all add: s3_def)
  then obtain F where log3: "calls s3 = calls s2 @ [F]" by blast
  have 4: "calls s3 = calls s @ (?c # L) @ [F]" using log1 log2 log3 by simp
  have 5: "halving_passes 1 n (?c # L)" using chain by (auto split: if_splits)
  have 6: "c_program (hd (?c # L)) = shader_rmsnorm_squares_and_sum" by simp
  have 7: "\<forall>c\<in>set (tl (?c # L)). c_program c = shader_sum" using progs by simp
  show ?thesis
    by (rule exI [of _ s3], rule exI [of _ "?c # L"], rule exI [of _ F])
      (use 1 2 3 4 5 6 7 in blast)
qed

lemma softmax_post:
  assumes "1 \<le> n"
  shows "\<exists>s' M S F. softmax x n m s = Some s' \<and>
           (\<forall>b. b \<noteq> s_mulBuffer_1 \<and> b \<noteq> s_mulBuffer_2 \<and> b \<noteq> s_mulBuffer_3 \<and> b \<noteq> x
                 \<longrightarrow> mem s' b = mem s b) \<and>
           calls s' = calls s @ M @ S @ [F] \<and>
           halving_passes m n M \<and> (\<forall>c\<in>set M. c_program c = shader_max) \<and>
           halving_passes m n S \<and> c_program (hd S) = shader_softmax_exp_and_sum \<and>
           (\<forall>c\<in>set (tl S). c_program c = shader_sum)"
proof -
  from softmax_max_loop_post [OF assms, of m s_mulBuffer_1 s_mulBuffer_2 s]
  obtain cb1 nb1 s1 M where
    run1: "softmax_max_loop m s_mulBuffer_1 s_mulBuffer_2 n s = Some (cb1, nb1, s1)" and
    bufs1: "(cb1, nb1) = (s_mulBuffer_1, s_mulBuffer_2) \<or> (cb1, nb1) = (s_mulBuffer_2, s_mulBuffer_1)" and
    frame1: "\<forall>b. b \<noteq> s_mulBuffer_1 \<and> b \<noteq> s_mulBuffer_2 \<longrightarrow> mem s1 b = mem s b" and
    log1: "calls s1 = calls s @ M" and
    chain1: "halving_passes m n M" and
    progs1: "\<forall>c\<in>set M. c_program c = shader_max"
    by blast
  let ?s2 = "glDispatchCompute (half_up n) m 1
               (glUniform1i (shader_softmax_exp_and_sum, u_shape0) (half_up n)
                 (glUniform1i (shader_softmax_exp_and_sum, u_insize) n
                   (glUseProgram shader_softmax_exp_and_sum
                     (glBindBufferBase 2 s_mulBuffer_3
                       (glBindBufferBase 1 nb1 (glBindBufferBase 0 x s1))))))"
  let ?c = "\<lparr>c_program = shader_softmax_exp_and_sum, c_grid = (half_up n, m, 1),
             c_uniforms = (uni s1 shader_softmax_exp_and_sum)
                            (u_insize := n, u_shape0 := half_up n)\<rparr>"
  have log2: "calls ?s2 = calls s1 @ [?c]" by (simp add: glUniform1i_uni)
  have frame2: "\<forall>b. b \<noteq> s_mulBuffer_3 \<longrightarrow> mem ?s2 b = mem s1 b"
    by (simp add: glDispatchCompute_frame)
  from assms have "1 \<le> half_up n" by (simp add: half_up_pos)
  from sum_loop_post [OF this, of m cb1 s_mulBuffer_3 ?s2]
  obtain cb3 nb3 s3 L where
    run3: "sum_loop m cb1 s_mulBuffer_3 (half_up n) ?s2 = Some (cb3, nb3, s3)" and
    frame3: "\<forall>b. b \<noteq> cb1 \<and> b \<noteq> s_mulBuffer_3 \<longrightarrow> mem s3 b = mem ?s2 b" and
    log3: "calls s3 = calls ?s2 @ L" and
    chain3: "if half_up n = 1 then L = [] else halving_passes m (half_up n) L" and
    progs3: "\<forall>c\<in>set L. c_program c = shader_sum"
    by blast
  define s4 where "s4 =
    glDispatchCompute n m 1
      (glUniform1i (shader_softmax_normalize, u_shape0) n
        (glUseProgram shader_softmax_normalize
          (glBindBufferBase 2 x (glBindBufferBase 1 nb1 (glBindBufferBase 0 nb3 s3)))))"
  have 1: "softmax x n m s = Some s4"
    unfolding softmax_def Let_def next_step_half_up using run1 run3 by (simp add: s4_def)
  have frame4: "\<forall>b. b \<noteq> x \<longrightarrow> mem s4 b = mem s3 b"
    by (simp add: s4_def glDispatchCompute_frame)
  have cb1: "cb1 = s_mulBuffer_1 \<or> cb1 = s_mulBuffer_2" using bufs1 by auto
  have 2: "\<forall>b. b \<noteq> s_mulBuffer_1 \<and> b \<noteq> s_mulBuffer_2 \<and> b \<noteq> s_mulBuffer_3 \<and> b \<noteq> x
             \<longrightarrow> mem s4 b = mem s b"
    using frame1 frame2 frame3 frame4 cb1 by auto
  obtain F where log4: "calls s4 = calls s3 @ [F]" by (simp add: s4_def)
  have 3: "calls s4 = calls s @ M @ (?c # L) @ [F]" using log1 log2 log3 log4 by simp
  have 4: "halving_passes m n (?c # L)" using chain3 by (auto split: if_splits)
  have 5: "c_program (hd (?c # L)) = shader_softmax_exp_and_sum" by simp
  have 6: "\<forall>c\<in>set (tl (?c # L)). c_program c = shader_sum" using progs3 by simp
  show ?thesis
    by (rule exI [of _ s4], rule exI [of _ M], rule exI [of _ "?c # L"], rule exI [of _ F])
      (use 1 2 3 4 5 6 chain1 progs1 in blast)
qed

section \<open>The forward pass: which buffers a step writes\<close>

lemma glBindBuffer_fields [simp]:
  "bnd (glBindBuffer b s) = bnd s" "mem (glBindBuffer b s) = mem s"
  "prg (glBindBuffer b s) = prg s" "uni (glBindBuffer b s) = uni s"
  "target (glBindBuffer b s) = b" "calls (glBindBuffer b s) = calls s"
  "copy_by_name (glBindBuffer b s) = copy_by_name s"
  "map_fails (glBindBuffer b s) = map_fails s"
  by (simp_all add: glBindBuffer_def)

lemma glBufferSubData_fields [simp]:
  "bnd (glBufferSubData off n d s) = bnd s" "prg (glBufferSubData off n d s) = prg s"
  "uni (glBufferSubData off n d s) = uni s" "target (glBufferSubData off n d s) = target s"
  "calls (glBufferSubData off n d s) = calls s"
  "copy_by_name (glBufferSubData off n d s) = copy_by_name s"
  "map_fails (glBufferSubData off n d s) = map_fails s"
  by (simp_all add: glBufferSubData_def)


lemma glCopyBufferSubData_fields [simp]:
  "bnd (glCopyBufferSubData r w ro wo n s) = bnd s"
  "prg (glCopyBufferSubData r w ro wo n s) = prg s"
  "uni (glCopyBufferSubData r w ro wo n s) = uni s"
  "target (glCopyBufferSubData r w ro wo n s) = target s"
  "calls (glCopyBufferSubData r w ro wo n s) = calls s"
  "copy_by_name (glCopyBufferSubData r w ro wo n s) = copy_by_name s"
  "map_fails (glCopyBufferSubData r w ro wo n s) = map_fails s"
  by (simp_all add: glCopyBufferSubData_def)

lemma glCopyBufferSubData_frame:
  "b \<noteq> w \<Longrightarrow> mem (glCopyBufferSubData r w ro wo n s) b = mem s b"
  by (simp add: glCopyBufferSubData_def)



lemma matmul_bnd_3 [simp]: "bnd (matmul xout x w n d xo wo s) 3 = bnd s 3"
  by (simp add: matmul_def Let_def)





lemma layer_kv_store_frame:
  "b \<noteq> s_key_cache \<Longrightarrow> b \<noteq> s_value_cache \<Longrightarrow> mem (layer_kv_store p pos l s) b = mem s b"
  by (simp add: layer_kv_store_def Let_def glCopyBufferSubData_frame)












section \<open>The samplers and the token loop: which buffers they write\<close>





lemma glUniform1f_temperature_fields [simp]:
  "bnd (glUniform1f_temperature P v s) = bnd s" "mem (glUniform1f_temperature P v s) = mem s"
  "prg (glUniform1f_temperature P v s) = prg s" "uni (glUniform1f_temperature P v s) = uni s"
  "calls (glUniform1f_temperature P v s) = calls s"
  by (simp_all add: glUniform1f_temperature_def)








section \<open>The attention scores (claim C1)\<close>

text \<open>
  Claim C1 says that after the attention-score dispatch of the forward pass
  \<open>att[h * seq_len + t]\<close> holds the scaled dot product of the query of head \<open>h\<close> with the
  cached key of position \<open>t\<close>, for every \<open>t\<close> from \<open>0\<close> to \<open>pos\<close>. The host dispatches the
  kernel over \<open>(n_heads, head_size, 1)\<close> and the kernel takes \<open>t\<close> from the y coordinate,
  so only the positions \<open>t < head_size\<close> get a score. With one head of size 2 at
  position \<open>pos = 2\<close> the score of \<open>t = 2\<close> is not written: \<open>att[2]\<close> keeps its old value
  \<open>0\<close>, while the dot product the claim promises is \<open>2 / sqrt 2\<close>.
\<close>

theorem layer_scores_skips_position:
  "mem (layer_scores cfg_one_head 2 2 0 st_ones) s_att (0 * seq_len cfg_one_head + 2) = 0 \<and>
   mem (layer_scores cfg_one_head 2 2 0 st_ones) s_att (0 * seq_len cfg_one_head + 2)
     \<noteq> (\<Sum>i<2. mem st_ones s_q (0 * 2 + i)
                 * mem st_ones s_key_cache
                     (0 * seq_len cfg_one_head * dim cfg_one_head + 2 * dim cfg_one_head
                        + 0 * 2 + i)) / sqrt 2"
  by (simp add: layer_scores_def cfg_one_head_def gl_eval st_ones_def st0_def)

section \<open>RoPE (claim C2)\<close>

text \<open>The host binds \<^verbatim>\<open>s->q\<close> and then \<^verbatim>\<open>s->k\<close> to binding point 2, and nothing to
  binding point 3. The kernel's \<^verbatim>\<open>q\<close> block is therefore the buffer \<^verbatim>\<open>s->k\<close>, and its
  \<^verbatim>\<open>k\<close> block whatever buffer was bound at 3 before: the buffer left there by the last
  \<^verbatim>\<open>rmsnorm\<close>. With \<^verbatim>\<open>s->xb\<close> at 3, the buffer \<^verbatim>\<open>s->q\<close> is out of the dispatch's reach.\<close>

lemma layer_rope_keeps_q:
  "mem (layer_rope p pos head_size delta (glBindBufferBase 3 s_xb s)) s_q = mem s s_q"
  by (simp add: layer_rope_def Let_def glDispatchCompute_frame)

text \<open>
  Claim C2 says that the RoPE dispatch rotates every pair of \<^verbatim>\<open>q\<close> and of \<^verbatim>\<open>k\<close> and
  changes no other buffer. In the state \<open>st_rope\<close>, at position 0 with a quarter turn,
  the pair \<open>(1, 0)\<close> should become \<open>(0, 1)\<close> in \<^verbatim>\<open>q\<close> and in \<^verbatim>\<open>k\<close>. The code leaves
  \<^verbatim>\<open>q\<close> as it is, rotates \<^verbatim>\<open>k\<close>, and rotates \<^verbatim>\<open>xb\<close>, a buffer the claim says is not
  touched.
\<close>

theorem layer_rope_misses_q_and_rotates_xb:
  "mem (layer_rope cfg_one_head 0 2 0 st_rope) s_q 0 = 1 \<and>
   mem (layer_rope cfg_one_head 0 2 0 st_rope) s_q 1 = 0 \<and>
   mem st_rope s_q 0 * mem st_rope w_freq_cis_real 0
     - mem st_rope s_q 1 * mem st_rope w_freq_cis_imag 0 = 0 \<and>
   mem st_rope s_q 0 * mem st_rope w_freq_cis_imag 0
     + mem st_rope s_q 1 * mem st_rope w_freq_cis_real 0 = 1 \<and>
   mem (layer_rope cfg_one_head 0 2 0 st_rope) s_k 0 = 0 \<and>
   mem (layer_rope cfg_one_head 0 2 0 st_rope) s_k 1 = 1 \<and>
   mem st_rope s_xb 0 = 1 \<and> mem st_rope s_xb 1 = 0 \<and>
   mem (layer_rope cfg_one_head 0 2 0 st_rope) s_xb 0 = 0 \<and>
   mem (layer_rope cfg_one_head 0 2 0 st_rope) s_xb 1 = 1"
  by (simp add: layer_rope_def cfg_one_head_def gl_eval st_rope_def st0_def)

section \<open>SiLU and the product with \<^verbatim>\<open>hb2\<close> (claim C3)\<close>

lemma one_plus_exp_nonzero [simp]: "1 + exp (x::real) \<noteq> 0"
  using exp_gt_zero [of x] by linarith

lemma sigmoid_sign_differs: "1 / (1 + exp (1::real)) \<noteq> 1 / (1 + exp (- 1))"
proof -
  have "exp (1::real) \<noteq> exp (- 1)" by simp
  then show ?thesis by (simp add: field_simps)
qed

text \<open>
  Claim C3 says that the dispatch leaves \<open>(h * sigma h) * hb2[i]\<close> in \<open>hb[i]\<close>, where \<open>h\<close>
  is the old \<open>hb[i]\<close> and \<open>sigma x = 1 / (1 + exp (- x))\<close>, and leaves \<^verbatim>\<open>hb2\<close> unchanged.
  The kernel computes \<open>1 / (1 + exp v)\<close>, without the minus sign, and declares \<^verbatim>\<open>hb2\<close> at
  binding point 0, where the host binds \<^verbatim>\<open>hb\<close>: it multiplies by \<open>hb[i]\<close> again and never
  reads \<^verbatim>\<open>s->hb2\<close>. With \<open>hb = [1, 1]\<close> and \<open>hb2 = [0, 1]\<close> both cells end as
  \<open>1 / (1 + exp 1)\<close>: the first is not the \<open>0\<close> that the product with \<open>hb2[0]\<close> gives,
  the second not \<open>1 / (1 + exp (- 1))\<close>. Only the last part of the claim holds: \<^verbatim>\<open>hb2\<close> is
  unchanged.
\<close>

theorem layer_silu_wrong_sign_and_operand:
  "mem (layer_silu cfg_one_head st_silu) s_hb 0 = 1 / (1 + exp 1) \<and>
   mem (layer_silu cfg_one_head st_silu) s_hb 0
     \<noteq> (mem st_silu s_hb 0 * (1 / (1 + exp (- mem st_silu s_hb 0)))) * mem st_silu s_hb2 0 \<and>
   mem (layer_silu cfg_one_head st_silu) s_hb 1 = 1 / (1 + exp 1) \<and>
   mem (layer_silu cfg_one_head st_silu) s_hb 1
     \<noteq> (mem st_silu s_hb 1 * (1 / (1 + exp (- mem st_silu s_hb 1)))) * mem st_silu s_hb2 1 \<and>
   mem (layer_silu cfg_one_head st_silu) s_hb2 = mem st_silu s_hb2"
proof -
  have run: "mem (layer_silu cfg_one_head st_silu) s_hb 0 = 1 / (1 + exp 1)"
    "mem (layer_silu cfg_one_head st_silu) s_hb 1 = 1 / (1 + exp 1)"
    "mem (layer_silu cfg_one_head st_silu) s_hb2 = mem st_silu s_hb2"
    by (simp_all add: layer_silu_def cfg_one_head_def gl_eval st_silu_def st0_def)
  have old: "mem st_silu s_hb 0 = 1" "mem st_silu s_hb 1 = 1"
    "mem st_silu s_hb2 0 = 0" "mem st_silu s_hb2 1 = 1"
    by (simp_all add: st_silu_def st0_def)
  show ?thesis
    unfolding run old using sigmoid_sign_differs by simp
qed

section \<open>Temperature and softmax on the logits (claim C4)\<close>

lemma grid_no_rows [simp]: "grid gx 0 gz = []"
  by (simp add: grid_def)

text \<open>
  Claim C4 says that with a temperature \<open>T > 0\<close> the logits buffer holds a probability
  distribution after the temperature dispatch and the softmax of the token loop. The
  loop calls \<^verbatim>\<open>softmax(&prog, &state, state.logits, config.vocab_size, 0)\<close>: \<^verbatim>\<open>size_y\<close>
  is the y extent of every dispatch in \<^verbatim>\<open>softmax\<close>, and a grid with no rows runs no
  invocation. The logits are divided by \<open>T\<close> and nothing more: from \<open>[-2, 6]\<close> with
  \<open>T = 2\<close> the buffer ends as \<open>[-1, 3]\<close>, with a negative entry and the sum \<open>2\<close>.
\<close>

theorem apply_temperature_softmax_not_normalised:
  "\<exists>s'. apply_temperature_softmax cfg_one_head 2 st_logits = Some s' \<and>
        mem s' s_logits 0 = - 1 \<and> mem s' s_logits 1 = 3 \<and>
        mem s' s_logits 0 < 0 \<and>
        \<bar>(mem s' s_logits 0 + mem s' s_logits 1) - 1\<bar> > 1 / 100000"
  by (simp add: apply_temperature_softmax_def softmax_def cfg_one_head_def
      softmax_max_loop.simps sum_loop.simps glUniform1f_temperature_def gl_eval
      st_logits_def st0_def split del: if_split)

section \<open>Greedy sampling (claim C5)\<close>

text \<open>
  Claim C5 says that \<^verbatim>\<open>argmax(logits, n)\<close> runs the argmax reduction and returns the index
  of the largest element, as a host-side argmax would. The host never uses
  \<^verbatim>\<open>shader_argmax\<close>: every reduction pass dispatches \<^verbatim>\<open>shader_rmsnorm_squares_and_sum\<close>,
  which writes sums of squares to binding point 1, the index buffer of the pass, and
  nothing to the buffers bound at 2 and 3. The value read back is such a sum, or an
  untouched scratch cell. For the logits \<open>[0, 0, 0, 9]\<close> the call returns \<open>0\<close>, the
  largest element is at index \<open>3\<close>.
\<close>

theorem argmax_returns_wrong_index:
  "map_option fst (argmax s_logits 4 st_argmax) = Some 0 \<and>
   host_argmax (mem st_argmax s_logits) 4 = 3"
proof -
  have "map_option fst (argmax s_logits 4 st_argmax) = Some 0"
    by (simp add: argmax_def argmax_loop.simps glBindBuffer_def glMapBufferRange_def
        float_to_int_def gl_eval st_argmax_def st0_def split del: if_split)
  moreover have "host_argmax (mem st_argmax s_logits) 4 = 3"
    by (simp add: host_argmax_def st_argmax_def st0_def eval_nat_numeral)
  ultimately show ?thesis by simp
qed

section \<open>Top-p sampling (claim C6)\<close>

lemma random_f32_seed_1: "random_f32 1 = (2355815 / 8388608, 33554433)"
  by (simp add: random_f32_def random_u32_def xorshift_r12_def xorshift_l25_def
      xorshift_r27_def)

text \<open>
  Claim C6 says that \<^verbatim>\<open>sample_topp\<close> returns the index chosen by the inverse-CDF draw
  over the sorted prefix, and \<^verbatim>\<open>probindex[last_idx].index\<close> only when rounding keeps the
  running sum from passing the draw. The assignment
  \<^verbatim>\<open>res = probindex[last_idx].index\<close> stands after the loop, outside any condition, and
  overwrites what the draw chose. With probabilities \<open>[1/4, 3/4]\<close>, \<open>topp = 7/8\<close> and
  seed \<open>1\<close>: the sorted array is \<open>[(3/4, 1), (1/4, 0)]\<close>, the prefix ends at
  \<open>last_idx = 1\<close> with mass \<open>1\<close>, the draw is \<open>2355815 / 8388608 < 3/4\<close> and selects
  index \<open>1\<close>; \<^verbatim>\<open>sample_topp\<close> returns \<open>0\<close>.
\<close>

theorem sample_topp_ignores_draw:
  "fst (sample_topp s_logits 2 (7 / 8) probindex0 1 st_probs) = 0 \<and>
   fst (snd (snd (sample_topp s_logits 2 (7 / 8) probindex0 1 st_probs)))
     = [\<lparr>prob = 3 / 4, index = 1\<rparr>, \<lparr>prob = 1 / 4, index = 0\<rparr>] \<and>
   topp_truncate [\<lparr>prob = 3 / 4, index = 1\<rparr>, \<lparr>prob = 1 / 4, index = 0\<rparr>] (7 / 8) 0 0 2 0
     = (1, 1) \<and>
   topp_draw [\<lparr>prob = 3 / 4, index = 1\<rparr>, \<lparr>prob = 1 / 4, index = 0\<rparr>]
      (fst (random_f32 1) * 1) 0 0 (1 + 1) (int 2 - 1) = 1"
  by (simp add: sample_topp_def glBindBuffer_def glMapBufferRange_def st_probs_def st0_def
      probindex0_def Let_def upt_conv_Cons qsort_def compare_def random_f32_seed_1
      eval_nat_numeral)

section \<open>The size of the scratch buffers (claim C9)\<close>

text \<open>
  Claim C9 says that each of the four scratch buffers is created with
  \<open>max (dim * seq_len) vocab_size * sizeof(float)\<close> bytes. \<^verbatim>\<open>malloc_run_state\<close> compares
  \<^verbatim>\<open>vocab_size\<close>, a count of floats, with the byte count \<^verbatim>\<open>dim * seq_len * sizeof(float)\<close>
  and stores \<^verbatim>\<open>vocab_size\<close> itself as the byte count when it is larger. For
  \<open>dim = 64\<close>, \<open>seq_len = 64\<close>, \<open>vocab_size = 32000\<close> the buffers get 32000 bytes, room
  for 8000 floats, where the claim says 128000 bytes.
\<close>

theorem mulBuffer_len_too_small:
  "unat (mulBuffer_len (malloc_run_state cfg_small)) = 32000 \<and>
   max (dim cfg_small * seq_len cfg_small) (vocab_size cfg_small) * sizeof_float = 128000"
  by (simp add: malloc_run_state_def cfg_small_def sizeof_float_def Let_def)

section \<open>The shape of the reductions (claim C8)\<close>

lemma halving_passes_5:
  "halving_passes gy 5 R \<Longrightarrow> map c_grid R = [(3, gy, 1), (2, gy, 1), (1, gy, 1)]"
proof -
  assume h: "halving_passes gy 5 R"
  have e: "half_up 5 = 3" "half_up 3 = 2" "half_up 2 = 1" by (simp_all add: half_up_def)
  from h obtain c1 R1 where R: "R = c1 # R1" by (cases R) simp_all
  with h e have 1: "c_grid c1 = (3, gy, 1)" "halving_passes gy 3 R1" by simp_all
  from 1 obtain c2 R2 where R1: "R1 = c2 # R2" by (cases R1) simp_all
  with 1 e have 2: "c_grid c2 = (2, gy, 1)" "halving_passes gy 2 R2" by simp_all
  from 2 obtain c3 R3 where R2: "R2 = c3 # R3" by (cases R2) simp_all
  with 2 e have 3: "c_grid c3 = (1, gy, 1)" "R3 = []" by simp_all
  show ?thesis using R R1 R2 1 2 3 by simp
qed

text \<open>
  Claim C8. For a row length \<open>n \<ge> 1\<close>, the reduction loops follow the step sizes
  \<open>n\<close>, \<open>\<lceil>n/2\<rceil>\<close>, \<open>\<lceil>\<lceil>n/2\<rceil>/2\<rceil>\<close>, ..., reach step size 1 after finitely many passes, and
  leave one value for each row. Stated on the dispatch log: \<^verbatim>\<open>rmsnorm\<close> returns, and what it
  dispatched is a list \<open>R\<close> of halving passes from \<open>n\<close> on one row (the squares-and-sum
  kernel, then the passes of the sum loop), followed by the scaling kernel; \<^verbatim>\<open>softmax\<close>
  returns, and what it dispatched is a list \<open>M\<close> of halving passes from \<open>n\<close> on \<open>m\<close> rows
  (the max loop), a second such list \<open>S\<close> (the exp-and-sum kernel, then the passes of
  the sum loop), and the normalising kernel. The last pass of each list runs on the grid
  \<open>1 \<times> rows \<times> 1\<close>: one value for each row.
\<close>

theorem reduction_loops_halve_to_one:
  assumes "1 \<le> n"
  shows "(\<exists>s' R F. rmsnorm out x weight n weight_offset s = Some s' \<and>
            calls s' = calls s @ R @ [F] \<and>
            halving_passes 1 n R \<and> c_grid (last R) = (1, 1, 1) \<and>
            c_program (hd R) = shader_rmsnorm_squares_and_sum \<and>
            (\<forall>c\<in>set (tl R). c_program c = shader_sum)) \<and>
         (\<exists>s' M S F. softmax x n m s = Some s' \<and>
            calls s' = calls s @ M @ S @ [F] \<and>
            halving_passes m n M \<and> c_grid (last M) = (1, m, 1) \<and>
            (\<forall>c\<in>set M. c_program c = shader_max) \<and>
            halving_passes m n S \<and> c_grid (last S) = (1, m, 1) \<and>
            c_program (hd S) = shader_softmax_exp_and_sum \<and>
            (\<forall>c\<in>set (tl S). c_program c = shader_sum)) \<and>
         (\<forall>k. half_up k = nat \<lceil>real k / 2\<rceil>)"
proof -
  from rmsnorm_post [OF assms, of out x weight weight_offset s]
  obtain s1 R F where
    "rmsnorm out x weight n weight_offset s = Some s1"
    "calls s1 = calls s @ R @ [F]" "halving_passes 1 n R"
    "c_program (hd R) = shader_rmsnorm_squares_and_sum"
    "\<forall>c\<in>set (tl R). c_program c = shader_sum"
    by blast
  then have a: "\<exists>s' R F. rmsnorm out x weight n weight_offset s = Some s' \<and>
            calls s' = calls s @ R @ [F] \<and>
            halving_passes 1 n R \<and> c_grid (last R) = (1, 1, 1) \<and>
            c_program (hd R) = shader_rmsnorm_squares_and_sum \<and>
            (\<forall>c\<in>set (tl R). c_program c = shader_sum)"
    using halving_passes_last [of 1 n R] by blast
  from softmax_post [OF assms, of x m s]
  obtain s2 M S G where
    "softmax x n m s = Some s2" "calls s2 = calls s @ M @ S @ [G]"
    "halving_passes m n M" "\<forall>c\<in>set M. c_program c = shader_max"
    "halving_passes m n S" "c_program (hd S) = shader_softmax_exp_and_sum"
    "\<forall>c\<in>set (tl S). c_program c = shader_sum"
    by blast
  then have b: "\<exists>s' M S F. softmax x n m s = Some s' \<and>
            calls s' = calls s @ M @ S @ [F] \<and>
            halving_passes m n M \<and> c_grid (last M) = (1, m, 1) \<and>
            (\<forall>c\<in>set M. c_program c = shader_max) \<and>
            halving_passes m n S \<and> c_grid (last S) = (1, m, 1) \<and>
            c_program (hd S) = shader_softmax_exp_and_sum \<and>
            (\<forall>c\<in>set (tl S). c_program c = shader_sum)"
    using halving_passes_last [of m n M] halving_passes_last [of m n S] by blast
  show ?thesis using a b half_up_ceiling by blast
qed

theorem reduction_loops_halve_to_one_witness:
  "(1::nat) \<le> 5 \<and>
   (\<exists>s' R F. rmsnorm s_xb s_x w_rms_att_weight 5 0 st0 = Some s' \<and>
      calls s' = R @ [F] \<and>
      map c_grid R = [(3, 1, 1), (2, 1, 1), (1, 1, 1)]) \<and>
   (\<exists>s' M S F. softmax s_x 5 2 st0 = Some s' \<and>
      calls s' = M @ S @ [F] \<and>
      map c_grid M = [(3, 2, 1), (2, 2, 1), (1, 2, 1)] \<and>
      map c_grid S = [(3, 2, 1), (2, 2, 1), (1, 2, 1)])"
proof -
  have h: "(1::nat) \<le> 5" by simp
  have c: "calls st0 = []" by (simp add: st0_def)
  from reduction_loops_halve_to_one [OF h, of s_xb s_x w_rms_att_weight 0 st0 2]
  show ?thesis
    unfolding c append_Nil using h halving_passes_5 by blast
qed

section \<open>The key and value caches (claim C7)\<close>



end
